theory Spec2Isabelle
  imports Main "HOL-Library.Word"
begin

unbundle bit_operations_syntax

chapter \<open>RadiaCode driver: byte cursor, framing, command layer and decoders\<close>

section \<open>Machine types\<close>

text \<open>
  Fixed-width values of the C++ source are words: \<open>uint8_t\<close>, \<open>uint16_t\<close> and
  \<open>uint32_t\<close> are read with \<open>unat\<close>; \<open>int8_t\<close>, \<open>int16_t\<close> and \<open>int32_t\<close> are the
  same bit patterns read with \<open>sint\<close>. A \<open>float\<close> is never computed with in the parts
  modelled here, only moved: it is kept as its IEEE-754 bit pattern. Sizes, positions and
  indices (\<open>size_t\<close>) are natural numbers up to \<open>SIZE_MAX\<close>; the target (ESP32) has a
  32-bit \<open>size_t\<close>. A sum of two of them that can pass \<open>SIZE_MAX\<close> is reduced modulo
  \<open>SIZE_MAX + 1\<close> (\<open>size_t_add\<close>), as unsigned arithmetic does; a sum that the
  surrounding test keeps within \<open>_size\<close> (\<open>_position += 1\<close> behind
  \<open>_position < _size\<close>, \<open>_position += bytesToRead\<close>) is written plainly. The one
  subtraction that the buffer performs, \<open>_size - _position\<close>, is taken where
  \<open>_position \<le> _size\<close> holds, and the places where the source subtracts one from a
  size that may be zero write the 32-bit wrap-around out. Two expressions of the source
  have no value in C++ on part of their inputs, the product \<open>ts_offset * 10\<close> where it
  does not fit an \<open>int\<close> and the shift \<open>1 << nvsfr\<close> for \<open>nvsfr \<ge> 32\<close>: the functions
  that contain them take what the compiled code yields there as a parameter. Memory is a
  map from byte offsets to bytes, so that a write past the end of
  a C array is visible as a write to an offset beyond the array.
\<close>

type_synonym u8 = "8 word"
type_synonym u16 = "16 word"
type_synonym u32 = "32 word"
type_synonym i8 = "8 word"
type_synonym i16 = "16 word"
type_synonym i32 = "32 word"
type_synonym float_bits = "32 word"
type_synonym memory = "nat \<Rightarrow> u8"

definition SIZE_MAX :: nat where
  "SIZE_MAX = 4294967295"

definition size_t_add :: "nat \<Rightarrow> nat \<Rightarrow> nat" where
  "size_t_add a b = (a + b) mod (SIZE_MAX + 1)"

definition memset_zero :: "memory \<Rightarrow> nat \<Rightarrow> memory" where
  "memset_zero m n = (\<lambda>i. if i < n then 0 else m i)"

definition memcpy_at :: "memory \<Rightarrow> nat \<Rightarrow> u8 list \<Rightarrow> nat \<Rightarrow> memory" where
  "memcpy_at m off src n = (\<lambda>i. if off \<le> i \<and> i < off + n then src ! (i - off) else m i)"

definition mem_bytes :: "memory \<Rightarrow> nat \<Rightarrow> nat \<Rightarrow> u8 list" where
  "mem_bytes m off n = map (\<lambda>i. m (off + i)) [0..<n]"

section \<open>BytesBuffer (BytesBuffer.h, BytesBuffer.cpp)\<close>

definition MAX_BUFFER_SIZE :: nat where
  "MAX_BUFFER_SIZE = 4096"

text \<open>
  \<open>fixed_data\<close> is the static shared array \<open>_shared_buffer\<close> as this object sees it;
  \<open>size_b\<close> is the field \<open>_size\<close> (\<open>size\<close> is taken in HOL).
\<close>

record BytesBuffer =
  fixed_data :: memory
  size_b :: nat
  capacity :: nat
  position :: nat

text \<open>
  The constructors take the current contents of the shared static array, since they only
  clear its first 16 bytes. A null \<open>data\<close> pointer and a zero length both leave
  \<open>_size = 0\<close>; the list argument stands for \<open>data[0 .. length)\<close>.
\<close>

definition BytesBuffer_void :: "memory \<Rightarrow> BytesBuffer" where
  "BytesBuffer_void shared =
     \<lparr>fixed_data = memset_zero shared 16, size_b = 0,
      capacity = MAX_BUFFER_SIZE, position = 0\<rparr>"

definition BytesBuffer_data :: "memory \<Rightarrow> u8 list \<Rightarrow> BytesBuffer" where
  "BytesBuffer_data shared data =
     (let m = memset_zero shared 16 in
      if length data = 0
      then \<lparr>fixed_data = m, size_b = 0, capacity = MAX_BUFFER_SIZE, position = 0\<rparr>
      else
        let sz = (if MAX_BUFFER_SIZE < length data then MAX_BUFFER_SIZE else length data)
        in \<lparr>fixed_data = memcpy_at m 0 data sz, size_b = sz,
            capacity = MAX_BUFFER_SIZE, position = 0\<rparr>)"

definition BytesBuffer_copy :: "BytesBuffer \<Rightarrow> BytesBuffer" where
  "BytesBuffer_copy other =
     \<lparr>fixed_data = fixed_data other, size_b = size_b other,
      capacity = MAX_BUFFER_SIZE, position = position other\<rparr>"

subsection \<open>Typed reads\<close>

text \<open>
  Each read returns the \<open>bool\<close> result, the value left in the output parameter and the
  buffer afterwards. The output pointer is taken to be non-null. In the reads of two and
  four bytes the sums \<open>_position + sizeof(T)\<close> and \<open>_position + k\<close> are \<open>size_t\<close> sums
  that nothing keeps below \<open>SIZE_MAX\<close>.
\<close>

definition readUint8 :: "BytesBuffer \<Rightarrow> bool \<times> u8 \<times> BytesBuffer" where
  "readUint8 b =
     (if size_b b \<le> position b then (False, 0, b)
      else (True, fixed_data b (position b), b\<lparr>position := position b + 1\<rparr>))"

definition readUint16 :: "BytesBuffer \<Rightarrow> bool \<times> u16 \<times> BytesBuffer" where
  "readUint16 b =
     (if size_b b \<le> position b \<or> size_b b < size_t_add (position b) 2 then (False, 0, b)
      else
        let t0 = (0 :: u16);
            t1 = (if position b < size_b b then t0 OR ucast (fixed_data b (position b)) else t0);
            t2 = (if size_t_add (position b) 1 < size_b b
                  then t1 OR push_bit 8 (ucast (fixed_data b (size_t_add (position b) 1))) else t1)
        in (True, t2, b\<lparr>position := size_t_add (position b) 2\<rparr>))"

definition readUint32 :: "BytesBuffer \<Rightarrow> bool \<times> u32 \<times> BytesBuffer" where
  "readUint32 b =
     (if size_b b \<le> position b \<or> size_b b < size_t_add (position b) 4 then (False, 0, b)
      else
        let t0 = (0 :: u32);
            t1 = (if position b < size_b b then t0 OR ucast (fixed_data b (position b)) else t0);
            t2 = (if size_t_add (position b) 1 < size_b b
                  then t1 OR push_bit 8 (ucast (fixed_data b (size_t_add (position b) 1))) else t1);
            t3 = (if size_t_add (position b) 2 < size_b b
                  then t2 OR push_bit 16 (ucast (fixed_data b (size_t_add (position b) 2))) else t2);
            t4 = (if size_t_add (position b) 3 < size_b b
                  then t3 OR push_bit 24 (ucast (fixed_data b (size_t_add (position b) 3))) else t3)
        in (True, t4, b\<lparr>position := size_t_add (position b) 4\<rparr>))"

definition readInt8 :: "BytesBuffer \<Rightarrow> bool \<times> i8 \<times> BytesBuffer" where
  "readInt8 b =
     (if size_b b \<le> position b then (False, 0, b)
      else (True, fixed_data b (position b), b\<lparr>position := position b + 1\<rparr>))"

definition readInt16 :: "BytesBuffer \<Rightarrow> bool \<times> i16 \<times> BytesBuffer" where
  "readInt16 b =
     (if size_b b \<le> position b \<or> size_b b < size_t_add (position b) 2 then (False, 0, b)
      else
        let t0 = (0 :: i16);
            t1 = (if position b < size_b b then t0 OR ucast (fixed_data b (position b)) else t0);
            t2 = (if size_t_add (position b) 1 < size_b b
                  then t1 OR push_bit 8 (ucast (fixed_data b (size_t_add (position b) 1))) else t1)
        in (True, t2, b\<lparr>position := size_t_add (position b) 2\<rparr>))"

definition readInt32 :: "BytesBuffer \<Rightarrow> bool \<times> i32 \<times> BytesBuffer" where
  "readInt32 b =
     (if size_b b \<le> position b \<or> size_b b < size_t_add (position b) 4 then (False, 0, b)
      else
        let t0 = (0 :: i32);
            t1 = (if position b < size_b b then t0 OR ucast (fixed_data b (position b)) else t0);
            t2 = (if size_t_add (position b) 1 < size_b b
                  then t1 OR push_bit 8 (ucast (fixed_data b (size_t_add (position b) 1))) else t1);
            t3 = (if size_t_add (position b) 2 < size_b b
                  then t2 OR push_bit 16 (ucast (fixed_data b (size_t_add (position b) 2))) else t2);
            t4 = (if size_t_add (position b) 3 < size_b b
                  then t3 OR push_bit 24 (ucast (fixed_data b (size_t_add (position b) 3))) else t3)
        in (True, t4, b\<lparr>position := size_t_add (position b) 4\<rparr>))"

text \<open>\<open>readFloat\<close> assembles the same 32 bits and copies them into the \<open>float\<close>.\<close>

definition readFloat :: "BytesBuffer \<Rightarrow> bool \<times> float_bits \<times> BytesBuffer" where
  "readFloat b =
     (if size_b b \<le> position b \<or> size_b b < size_t_add (position b) 4 then (False, 0, b)
      else
        let t0 = (0 :: u32);
            t1 = (if position b < size_b b then t0 OR ucast (fixed_data b (position b)) else t0);
            t2 = (if size_t_add (position b) 1 < size_b b
                  then t1 OR push_bit 8 (ucast (fixed_data b (size_t_add (position b) 1))) else t1);
            t3 = (if size_t_add (position b) 2 < size_b b
                  then t2 OR push_bit 16 (ucast (fixed_data b (size_t_add (position b) 2))) else t2);
            t4 = (if size_t_add (position b) 3 < size_b b
                  then t3 OR push_bit 24 (ucast (fixed_data b (size_t_add (position b) 3))) else t3)
        in (True, t4, b\<lparr>position := size_t_add (position b) 4\<rparr>))"

text \<open>\<open>readBytes\<close> returns the bytes copied out; their number is the C++ return value.\<close>

definition readBytes :: "BytesBuffer \<Rightarrow> nat \<Rightarrow> u8 list \<times> BytesBuffer" where
  "readBytes b len =
     (let bytesToRead = min len (size_b b - position b) in
      if 0 < bytesToRead
      then (mem_bytes (fixed_data b) (position b) bytesToRead,
            b\<lparr>position := position b + bytesToRead\<rparr>)
      else ([], b))"

text \<open>
  \<open>peekBytes\<close> copies from the absolute offset \<open>offset\<close> of the array, not from the
  cursor. The list returned is what was copied into the destination; when it is empty the
  destination keeps whatever it held.
\<close>

definition peekBytes :: "BytesBuffer \<Rightarrow> nat \<Rightarrow> nat \<Rightarrow> bool \<times> u8 list" where
  "peekBytes b offset len =
     (if size_b b \<le> offset then (False, [])
      else
        let len' = (if size_b b < size_t_add offset len then size_b b - offset else len)
        in (0 < len', mem_bytes (fixed_data b) offset len'))"

subsection \<open>Writes\<close>

definition ensureCapacity :: "BytesBuffer \<Rightarrow> nat \<Rightarrow> bool" where
  "ensureCapacity b additionalBytes = (size_t_add (position b) additionalBytes \<le> capacity b)"

definition raise_size :: "BytesBuffer \<Rightarrow> BytesBuffer" where
  "raise_size b = (if size_b b < position b then b\<lparr>size_b := position b\<rparr> else b)"

definition writeUint8 :: "BytesBuffer \<Rightarrow> u8 \<Rightarrow> bool \<times> BytesBuffer" where
  "writeUint8 b v =
     (if \<not> ensureCapacity b 1 then (False, b)
      else (True, raise_size (b\<lparr>fixed_data := (fixed_data b)(position b := v),
                                position := size_t_add (position b) 1\<rparr>)))"

definition writeUint16 :: "BytesBuffer \<Rightarrow> u16 \<Rightarrow> bool \<times> BytesBuffer" where
  "writeUint16 b v =
     (if \<not> ensureCapacity b 2 then (False, b)
      else (True, raise_size (b\<lparr>fixed_data := (fixed_data b)
                                  (position b := ucast (v AND 0xFF),
                                   size_t_add (position b) 1 := ucast (drop_bit 8 v AND 0xFF)),
                                position := size_t_add (position b) 2\<rparr>)))"

definition writeUint32 :: "BytesBuffer \<Rightarrow> u32 \<Rightarrow> bool \<times> BytesBuffer" where
  "writeUint32 b v =
     (if \<not> ensureCapacity b 4 then (False, b)
      else (True, raise_size (b\<lparr>fixed_data := (fixed_data b)
                                  (position b := ucast (v AND 0xFF),
                                   size_t_add (position b) 1 := ucast (drop_bit 8 v AND 0xFF),
                                   size_t_add (position b) 2 := ucast (drop_bit 16 v AND 0xFF),
                                   size_t_add (position b) 3 := ucast (drop_bit 24 v AND 0xFF)),
                                position := size_t_add (position b) 4\<rparr>)))"

definition writeInt8 :: "BytesBuffer \<Rightarrow> i8 \<Rightarrow> bool \<times> BytesBuffer" where
  "writeInt8 b v = writeUint8 b v"

definition writeInt16 :: "BytesBuffer \<Rightarrow> i16 \<Rightarrow> bool \<times> BytesBuffer" where
  "writeInt16 b v = writeUint16 b v"

definition writeInt32 :: "BytesBuffer \<Rightarrow> i32 \<Rightarrow> bool \<times> BytesBuffer" where
  "writeInt32 b v = writeUint32 b v"

text \<open>
  \<open>writeFloat\<close> copies the four bytes of the value as they lie in memory; the target
  (ESP32) is little-endian, so they are the little-endian bytes of the bit pattern.
\<close>

definition writeFloat :: "BytesBuffer \<Rightarrow> float_bits \<Rightarrow> bool \<times> BytesBuffer" where
  "writeFloat b v =
     (if \<not> ensureCapacity b 4 then (False, b)
      else (True, raise_size (b\<lparr>fixed_data := (fixed_data b)
                                  (position b := ucast v,
                                   position b + 1 := ucast (drop_bit 8 v),
                                   position b + 2 := ucast (drop_bit 16 v),
                                   position b + 3 := ucast (drop_bit 24 v)),
                                position := size_t_add (position b) 4\<rparr>)))"

definition writeBytes :: "BytesBuffer \<Rightarrow> u8 list \<Rightarrow> nat \<times> BytesBuffer" where
  "writeBytes b buffer =
     (if \<not> ensureCapacity b (length buffer) then (0, b)
      else (length buffer,
            raise_size (b\<lparr>fixed_data := memcpy_at (fixed_data b) (position b) buffer (length buffer),
                          position := size_t_add (position b) (length buffer)\<rparr>)))"

subsection \<open>Utility methods\<close>

definition available :: "BytesBuffer \<Rightarrow> nat" where
  "available b = size_b b - position b"

definition getPosition :: "BytesBuffer \<Rightarrow> nat" where
  "getPosition b = position b"

definition getSize :: "BytesBuffer \<Rightarrow> nat" where
  "getSize b = size_b b"

definition setPosition :: "BytesBuffer \<Rightarrow> nat \<Rightarrow> BytesBuffer" where
  "setPosition b p = b\<lparr>position := min p (size_b b)\<rparr>"

definition reset :: "BytesBuffer \<Rightarrow> BytesBuffer" where
  "reset b = b\<lparr>position := 0\<rparr>"

text \<open>
  \<open>setSize\<close> calls \<open>ensureCapacity\<close> when the new size exceeds the capacity and drops the
  answer; the assignment to \<open>_size\<close> follows in either case.
\<close>

definition setSize :: "BytesBuffer \<Rightarrow> nat \<Rightarrow> BytesBuffer" where
  "setSize b sz =
     (let ignored = (if capacity b < sz then ensureCapacity b (sz - capacity b) else True);
          b1 = b\<lparr>size_b := sz\<rparr>
      in if size_b b1 < position b1 then b1\<lparr>position := size_b b1\<rparr> else b1)"

subsection \<open>What a little-endian read means\<close>




definition le32 :: "u8 \<Rightarrow> u8 \<Rightarrow> u8 \<Rightarrow> u8 \<Rightarrow> u32" where
  "le32 a b c d =
     (((0 OR ucast a) OR push_bit 8 (ucast b)) OR push_bit 16 (ucast c)) OR push_bit 24 (ucast d)"


section \<open>Spectrum (RadiaCodeTypes.h, RadiaCodeTypes.cpp)\<close>

definition MAX_CHANNELS :: nat where
  "MAX_CHANNELS = 1024"

text \<open>
  \<open>counts\<close> is the static array \<open>shared_counts\<close>, indexed by channel. The warning flag
  of \<open>push_back\<close> only decides whether a line is printed and is left out.
\<close>

record Spectrum =
  duration_sec :: u32
  a0 :: float_bits
  a1 :: float_bits
  a2 :: float_bits
  counts :: "nat \<Rightarrow> u32"
  count_size :: nat

definition Spectrum_void :: "(nat \<Rightarrow> u32) \<Rightarrow> Spectrum" where
  "Spectrum_void shared_counts =
     \<lparr>duration_sec = 0, a0 = 0, a1 = 0, a2 = 0,
      counts = (\<lambda>i. if i < MAX_CHANNELS then 0 else shared_counts i), count_size = 0\<rparr>"

definition Spectrum_copy :: "Spectrum \<Rightarrow> Spectrum" where
  "Spectrum_copy other =
     (let safe_count = (if MAX_CHANNELS < count_size other then MAX_CHANNELS else count_size other)
      in \<lparr>duration_sec = duration_sec other, a0 = a0 other, a1 = a1 other, a2 = a2 other,
          counts = counts other, count_size = safe_count\<rparr>)"

definition Spectrum_clear :: "Spectrum \<Rightarrow> Spectrum" where
  "Spectrum_clear s =
     s\<lparr>duration_sec := 0, a0 := 0, a1 := 0, a2 := 0, count_size := 0,
       counts := (\<lambda>i. if i < 16 then 0 else counts s i)\<rparr>"

definition Spectrum_size :: "Spectrum \<Rightarrow> nat" where
  "Spectrum_size s = count_size s"

definition Spectrum_empty :: "Spectrum \<Rightarrow> bool" where
  "Spectrum_empty s = (count_size s = 0)"

definition Spectrum_push_back :: "Spectrum \<Rightarrow> u32 \<Rightarrow> Spectrum" where
  "Spectrum_push_back s v =
     (if count_size s < MAX_CHANNELS
      then s\<lparr>counts := (counts s)(count_size s := v), count_size := count_size s + 1\<rparr>
      else s)"

definition Spectrum_at :: "Spectrum \<Rightarrow> nat \<Rightarrow> u32" where
  "Spectrum_at s i = (if i < count_size s then counts s i else 0)"

section \<open>Spectrum decoding (Decoders.cpp)\<close>

text \<open>The statement \<open>spectrum.counts[spectrum.count_size++] = v\<close> of the decoders.\<close>

definition store_count :: "Spectrum \<Rightarrow> u32 \<Rightarrow> Spectrum" where
  "store_count sp v = sp\<lparr>counts := (counts sp)(count_size sp := v), count_size := count_size sp + 1\<rparr>"

text \<open>
  The loop of \<open>decodeCountsV0\<close>. Every turn stores one count, so the loop ends after
  \<open>MAX_CHANNELS\<close> turns at the latest, wherever the cursor goes.
\<close>

function decodeCountsV0_loop :: "BytesBuffer \<Rightarrow> Spectrum \<Rightarrow> BytesBuffer \<times> Spectrum" where
  "decodeCountsV0_loop br sp =
     (if 0 < available br \<and> 4 \<le> available br \<and> count_size sp < MAX_CHANNELS
      then
        (case readUint32 br of
           (ok, count, br') \<Rightarrow>
             if ok
             then if count_size sp < MAX_CHANNELS
                  then decodeCountsV0_loop br' (store_count sp count)
                  else (br', sp)
             else (br', sp))
      else (br, sp))"
  by pat_completeness auto
termination
  apply (relation "measure (\<lambda>(br, sp). MAX_CHANNELS - count_size sp)")
   apply simp
  apply (simp add: store_count_def)
  done

definition decodeCountsV0 :: "BytesBuffer \<Rightarrow> Spectrum \<Rightarrow> BytesBuffer \<times> Spectrum" where
  "decodeCountsV0 br spectrum =
     (let sp = spectrum\<lparr>count_size := 0\<rparr> in
      if available br < 4 then (br, sp) else decodeCountsV0_loop br sp)"


subsection \<open>Format 1: run-length and delta coded counts\<close>

text \<open>
  One entry of a run. \<open>Read_error\<close> is the \<open>goto end_decoding\<close> of the source,
  \<open>Unsupported_vlen\<close> its \<open>break\<close> out of the \<open>for\<close> loop. A signed delta is promoted
  to \<open>int\<close> and added to the unsigned \<open>last\<close>, which is a sign extension followed by
  addition modulo \<open>2^32\<close>.
\<close>

datatype v1_entry = Entry u32 BytesBuffer | Read_error BytesBuffer | Unsupported_vlen

definition decodeCountsV1_entry :: "u8 \<Rightarrow> BytesBuffer \<Rightarrow> u32 \<Rightarrow> v1_entry" where
  "decodeCountsV1_entry vlen br last_c =
     (if vlen = 0 then Entry 0 br
      else if vlen = 1 then
        (case readUint8 br of (ok, val, br') \<Rightarrow>
           if \<not> ok then Read_error br' else Entry (ucast val) br')
      else if vlen = 2 then
        (case readInt8 br of (ok, val, br') \<Rightarrow>
           if \<not> ok then Read_error br' else Entry (last_c + scast val) br')
      else if vlen = 3 then
        (case readInt16 br of (ok, val, br') \<Rightarrow>
           if \<not> ok then Read_error br' else Entry (last_c + scast val) br')
      else if vlen = 4 then
        (if available br < 3 then Read_error br
         else
           case readUint8 br of (ok_a, a, br1) \<Rightarrow>
             if \<not> ok_a then Read_error br1
             else
               case readUint8 br1 of (ok_b, b, br2) \<Rightarrow>
                 if \<not> ok_b then Read_error br2
                 else
                   case readInt8 br2 of (ok_c, c, br3) \<Rightarrow>
                     if \<not> ok_c then Read_error br3
                     else Entry (last_c + ((push_bit 16 (scast c) OR push_bit 8 (ucast b)) OR ucast a)) br3)
      else if vlen = 5 then
        (case readInt32 br of (ok, val, br') \<Rightarrow>
           if \<not> ok then Read_error br' else Entry (last_c + val) br')
      else Unsupported_vlen)"

text \<open>
  The \<open>for\<close> loop over the entries of one run, by the number of iterations left. The
  first component of the result tells whether \<open>end_decoding\<close> was jumped to.
\<close>

fun decodeCountsV1_run ::
  "nat \<Rightarrow> u8 \<Rightarrow> BytesBuffer \<Rightarrow> u32 \<Rightarrow> Spectrum \<Rightarrow> bool \<times> BytesBuffer \<times> u32 \<times> Spectrum" where
  "decodeCountsV1_run 0 vlen br last_c sp = (False, br, last_c, sp)"
| "decodeCountsV1_run (Suc n) vlen br last_c sp =
     (if count_size sp < MAX_CHANNELS
      then
        (case decodeCountsV1_entry vlen br last_c of
           Entry v br' \<Rightarrow>
             decodeCountsV1_run n vlen br' v
               (if count_size sp < MAX_CHANNELS then store_count sp v else sp)
         | Read_error br' \<Rightarrow> (True, br', last_c, sp)
         | Unsupported_vlen \<Rightarrow> (False, br, last_c, sp))
      else (False, br, last_c, sp))"

text \<open>
  The \<open>while\<close> loop over the runs. A turn whose run stores nothing (a count of zero, an
  unsupported value code) moves the cursor by the two bytes of the run header only, and a
  read that wraps the cursor moves it backwards: the loop is a partial function, \<open>None\<close>
  standing for a loop that does not end.
\<close>

partial_function (option) decodeCountsV1_loop ::
  "BytesBuffer \<Rightarrow> u32 \<Rightarrow> Spectrum \<Rightarrow> (BytesBuffer \<times> Spectrum) option" where
  "decodeCountsV1_loop br last_c sp =
     (if 2 \<le> available br \<and> count_size sp < MAX_CHANNELS
      then
        (case readUint16 br of (ok, u16v, br1) \<Rightarrow>
           if \<not> ok then Some (br1, sp)
           else
             let cnt0 = drop_bit 4 u16v AND 0x0FFF;
                 vlen = (ucast (u16v AND 0x0F) :: u8);
                 cnt = (if 4096 < unat cnt0 then 0 else cnt0)
             in case decodeCountsV1_run (unat cnt) vlen br1 last_c sp of
                  (stop, br2, last_c2, sp2) \<Rightarrow>
                    if stop then Some (br2, sp2) else decodeCountsV1_loop br2 last_c2 sp2)
      else Some (br, sp))"

definition decodeCountsV1 :: "BytesBuffer \<Rightarrow> Spectrum \<Rightarrow> (BytesBuffer \<times> Spectrum) option" where
  "decodeCountsV1 br spectrum =
     (let sp = spectrum\<lparr>count_size := 0\<rparr>; last_c = 0 in
      if available br < 2 then Some (br, sp) else decodeCountsV1_loop br last_c sp)"

text \<open>\<open>decodeSpectrum\<close> returns when the decoder of the counts does.\<close>

definition decodeSpectrum ::
  "BytesBuffer \<Rightarrow> u8 \<Rightarrow> Spectrum \<Rightarrow> (BytesBuffer \<times> Spectrum) option" where
  "decodeSpectrum br format_version spectrum =
     (let sp = Spectrum_clear spectrum in
      if available br < 4 + 3 * 4 then Some (br, sp)
      else
        case readUint32 br of (ok_d, duration, br1) \<Rightarrow>
          if \<not> ok_d then Some (br1, sp)
          else
            case readFloat br1 of (ok0, c0, br2) \<Rightarrow>
              if \<not> ok0 then Some (br2, sp)
              else
                case readFloat br2 of (ok1, c1, br3) \<Rightarrow>
                  if \<not> ok1 then Some (br3, sp)
                  else
                    case readFloat br3 of (ok2, c2, br4) \<Rightarrow>
                      if \<not> ok2 then Some (br4, sp)
                      else
                        let sp1 = sp\<lparr>duration_sec := duration, a0 := c0, a1 := c1, a2 := c2\<rparr>
                        in map_option
                             (\<lambda>(br5, sp2). (br5, if MAX_CHANNELS < count_size sp2
                                                  then sp2\<lparr>count_size := MAX_CHANNELS\<rparr> else sp2))
                             (if format_version = 0 then Some (decodeCountsV0 br4 sp1)
                              else if format_version = 1 then decodeCountsV1 br4 sp1
                              else Some (br4, sp1)))"

section \<open>Telemetry stream decoding (Decoders.cpp, RadiaCodeTypes.h)\<close>









declare decodeCountsV0_loop.simps [simp del]


section \<open>Command layer (RadiaCode.h, RadiaCode.cpp, RadiaCodeTypes.h)\<close>

datatype COMMAND =
    GET_STATUS | SET_EXCHANGE | GET_VERSION | GET_SERIAL | FW_SIGNATURE | WR_VIRT_SFR
  | RD_VIRT_STRING | WR_VIRT_STRING | RD_VIRT_SFR_BATCH | WR_VIRT_SFR_BATCH | SET_TIME

fun command_code :: "COMMAND \<Rightarrow> u16" where
  "command_code GET_STATUS = 0x0005"
| "command_code SET_EXCHANGE = 0x0007"
| "command_code GET_VERSION = 0x000A"
| "command_code GET_SERIAL = 0x000B"
| "command_code FW_SIGNATURE = 0x0101"
| "command_code WR_VIRT_SFR = 0x0825"
| "command_code RD_VIRT_STRING = 0x0826"
| "command_code WR_VIRT_STRING = 0x0827"
| "command_code RD_VIRT_SFR_BATCH = 0x082A"
| "command_code WR_VIRT_SFR_BATCH = 0x082B"
| "command_code SET_TIME = 0x0A04"

text \<open>The registers that \<open>batchReadVSFRs\<close> tells apart (enum \<open>VSFR\<close>).\<close>

definition DS_UNITS :: u32 where "DS_UNITS = 0x8004"
definition CHN_TO_keV_A0 :: u32 where "CHN_TO_keV_A0 = 0x8010"
definition CHN_TO_keV_A1 :: u32 where "CHN_TO_keV_A1 = 0x8011"
definition CHN_TO_keV_A2 :: u32 where "CHN_TO_keV_A2 = 0x8012"
definition CR_UNITS :: u32 where "CR_UNITS = 0x8013"
definition TEMP_degC :: u32 where "TEMP_degC = 0x8024"
definition RAW_TEMP_degC :: u32 where "RAW_TEMP_degC = 0x8033"
definition TEMP_UP_degC :: u32 where "TEMP_UP_degC = 0x8034"
definition TEMP_DN_degC :: u32 where "TEMP_DN_degC = 0x8035"

text \<open>
  The session object: \<open>rc_seq\<close> is \<open>_seq\<close>, \<open>rc_connection\<close> tells whether
  \<open>_connection\<close> is non-null. The transport behind \<open>_connection\<close> is outside the
  repository's core. A call of \<open>_connection->execute\<close> has two sides: the bytes it is
  handed, and the buffer it hands back. The second is a function of the first
  (\<open>transport\<close>); the first is kept in \<open>rc_sent\<close>, the state of the object behind
  \<open>_connection\<close> as far as it is looked at here: the requests it has been handed,
  oldest first.
\<close>

record RadiaCode =
  rc_seq :: u8
  rc_connection :: bool
  rc_base_time_sec :: u32
  rc_spectrum_format_version :: u8
  rc_sent :: "u8 list list"

type_synonym transport = "u8 list \<Rightarrow> BytesBuffer"

text \<open>The fields as the constructor sets them before it talks to the device.\<close>

definition RadiaCode_init :: "bool \<Rightarrow> RadiaCode" where
  "RadiaCode_init connected =
     \<lparr>rc_seq = 0, rc_connection = connected, rc_base_time_sec = 0,
      rc_spectrum_format_version = 0, rc_sent = []\<rparr>"

text \<open>\<open>memcpy\<close> of a \<open>uint32_t\<close> into a byte array on the little-endian target.\<close>

definition le32_bytes :: "u32 \<Rightarrow> u8 list" where
  "le32_bytes v = [ucast v, ucast (drop_bit 8 v), ucast (drop_bit 16 v), ucast (drop_bit 24 v)]"

definition req_header :: "RadiaCode \<Rightarrow> COMMAND \<Rightarrow> u8 list" where
  "req_header rc reqtype =
     [ucast (command_code reqtype AND 0xFF),
      ucast (drop_bit 8 (command_code reqtype) AND 0xFF),
      0,
      0x80 + rc_seq rc]"

definition full_request :: "RadiaCode \<Rightarrow> COMMAND \<Rightarrow> u8 list \<Rightarrow> u8 list" where
  "full_request rc reqtype args =
     le32_bytes (of_nat (4 + length args)) @ req_header rc reqtype @ args"

text \<open>
  \<open>execute\<close>. Without a connection nothing is sent and \<open>_seq\<close> is not touched.
  \<open>(_seq + 1) % 32\<close> is computed in \<open>int\<close>. The frame built is handed to the transport,
  whose answer is the response. The four bytes of the echoed header are read off the
  response and not compared with anything.
\<close>

definition execute ::
  "RadiaCode \<Rightarrow> memory \<Rightarrow> transport \<Rightarrow> COMMAND \<Rightarrow> u8 list \<Rightarrow> RadiaCode \<times> BytesBuffer" where
  "execute rc shared tr reqtype args =
     (if \<not> rc_connection rc then (rc, BytesBuffer_void shared)
      else
        let request = full_request rc reqtype args;
            rc1 = rc\<lparr>rc_seq := of_nat ((unat (rc_seq rc) + 1) mod 32)\<rparr>;
            response = tr request;
            rc' = rc1\<lparr>rc_sent := rc_sent rc1 @ [request]\<rparr>;
            (resp_header, response') = readBytes response 4
        in (rc', response'))"

text \<open>
  \<open>readRequest\<close>. \<open>last_byte\<close> is declared without a value, and \<open>peekBytes\<close> leaves
  it alone when it copies nothing; the value it has then is the last argument.
  \<open>remaining_size - 1\<close> is a \<open>size_t\<close> difference and wraps when nothing remains.
  \<open>BytesBuffer()\<close> is built in the static array the response lives in.
\<close>

definition readRequest ::
  "RadiaCode \<Rightarrow> memory \<Rightarrow> transport \<Rightarrow> u32 \<Rightarrow> u8 \<Rightarrow> RadiaCode \<times> BytesBuffer" where
  "readRequest rc shared tr command_id last_byte_uninit =
     (case execute rc shared tr RD_VIRT_STRING (le32_bytes command_id) of (rc', r) \<Rightarrow>
        if getSize r < 8 then (rc', BytesBuffer_void (fixed_data r))
        else
          case readUint32 r of (ok1, retcode, r1) \<Rightarrow>
            (case (if ok1 then readUint32 r1 else (False, 0, r1)) of (ok2, flen, r2) \<Rightarrow>
               if \<not> (ok1 \<and> ok2) then (rc', BytesBuffer_void (fixed_data r2))
               else
                 let remaining_size = available r2 in
                 if remaining_size = unat (flen + 1)
                 then
                   let offset = (remaining_size + 2 ^ 32 - 1) mod 2 ^ 32;
                       (copied, bytes) = peekBytes r2 offset 1;
                       last_byte = (case bytes of [] \<Rightarrow> last_byte_uninit | x # xs \<Rightarrow> x)
                   in if last_byte = 0
                      then (rc', setSize r2 (getPosition r2 + remaining_size - 1))
                      else (rc', r2)
                 else (rc', r2)))"

text \<open>
  The values \<open>batchReadVSFRs\<close> returns are floats: either a raw value reinterpreted as
  IEEE-754 bits, or an unsigned integer converted to \<open>float\<close>.
\<close>

datatype float_value = Float_of_bits u32 | Float_of_uint u32

definition vsfr_value :: "u32 \<Rightarrow> u32 \<Rightarrow> float_value" where
  "vsfr_value vsfr_id raw_value =
     (if vsfr_id = CHN_TO_keV_A0 \<or> vsfr_id = CHN_TO_keV_A1 \<or> vsfr_id = CHN_TO_keV_A2
      then Float_of_bits raw_value
      else if vsfr_id = DS_UNITS \<or> vsfr_id = CR_UNITS
      then Float_of_uint (raw_value AND 0x01)
      else if vsfr_id = TEMP_degC \<or> vsfr_id = RAW_TEMP_degC
              \<or> vsfr_id = TEMP_UP_degC \<or> vsfr_id = TEMP_DN_degC
      then Float_of_bits raw_value
      else Float_of_uint raw_value)"

fun batch_values :: "u32 list \<Rightarrow> BytesBuffer \<Rightarrow> float_value list" where
  "batch_values [] r = []"
| "batch_values (vsfr_id # ids) r =
     (case readUint32 r of (ok, raw_value, r') \<Rightarrow>
        vsfr_value vsfr_id raw_value # batch_values ids r')"

definition batch_message :: "u32 list \<Rightarrow> u8 list" where
  "batch_message vsfr_ids = le32_bytes (of_nat (length vsfr_ids)) @ concat (map le32_bytes vsfr_ids)"

text \<open>
  \<open>batchReadVSFRs\<close>. \<open>(1 << nvsfr) - 1\<close> is an \<open>int\<close> expression stored in a
  \<open>uint32_t\<close>. For \<open>nvsfr < 32\<close> it is the word with the low \<open>nvsfr\<close> bits set (at
  \<open>nvsfr = 31\<close> the difference \<open>INT_MIN - 1\<close> is taken in two's complement, which gives
  \<open>0x7FFFFFFF\<close>). A shift of an \<open>int\<close> by 32 or more has no value;
  \<open>undefined_shift\<close> is what the compiled code stores in \<open>expected_flags\<close> then.
\<close>

definition batchReadVSFRs ::
  "RadiaCode \<Rightarrow> memory \<Rightarrow> transport \<Rightarrow> u32 list \<Rightarrow> u32 \<Rightarrow> RadiaCode \<times> float_value list" where
  "batchReadVSFRs rc shared tr vsfr_ids undefined_shift =
     (let nvsfr = length vsfr_ids in
      if nvsfr = 0 then (rc, [])
      else
        case execute rc shared tr RD_VIRT_SFR_BATCH (batch_message vsfr_ids) of (rc', r) \<Rightarrow>
          case readUint32 r of (ok, valid_flags, r1) \<Rightarrow>
            let expected_flags = (if nvsfr < 32 then push_bit nvsfr 1 - 1 else undefined_shift) in
            if valid_flags \<noteq> expected_flags then (rc', [])
            else (rc', batch_values vsfr_ids r1))"

text \<open>
  A session as a sequence of \<open>execute\<close> calls, each with its command, its arguments and
  what the transport answers: \<open>run_calls\<close> makes the calls one after the other and
  returns the session afterwards and the responses; \<open>requests_sent\<close> is what the
  transport has been handed in the course of these calls, in order.
\<close>

fun run_calls ::
  "RadiaCode \<Rightarrow> memory \<Rightarrow> (COMMAND \<times> u8 list \<times> transport) list
   \<Rightarrow> RadiaCode \<times> BytesBuffer list" where
  "run_calls rc shared [] = (rc, [])"
| "run_calls rc shared ((reqtype, args, tr) # calls) =
     (case execute rc shared tr reqtype args of (rc1, response) \<Rightarrow>
        case run_calls rc1 shared calls of (rc2, responses) \<Rightarrow> (rc2, response # responses))"

definition requests_sent ::
  "RadiaCode \<Rightarrow> memory \<Rightarrow> (COMMAND \<times> u8 list \<times> transport) list \<Rightarrow> u8 list list" where
  "requests_sent rc shared calls =
     drop (length (rc_sent rc)) (rc_sent (fst (run_calls rc shared calls)))"

text \<open>
  The two words of the inner header of a virtual-string response, as they lie in a
  response that still starts with the echoed 4-byte header.
\<close>

definition resp_retcode :: "BytesBuffer \<Rightarrow> u32" where
  "resp_retcode r0 = le32 (fixed_data r0 4) (fixed_data r0 5) (fixed_data r0 6) (fixed_data r0 7)"

definition resp_flen :: "BytesBuffer \<Rightarrow> u32" where
  "resp_flen r0 = le32 (fixed_data r0 8) (fixed_data r0 9) (fixed_data r0 10) (fixed_data r0 11)"

section \<open>Frame reassembly (BluetoothTransport.h, BluetoothTransport.cpp)\<close>

definition MAX_RESP_SIZE :: nat where
  "MAX_RESP_SIZE = 4096"

text \<open>
  The response state of the transport: the static array \<open>_resp_buffer\<close> and the
  fields \<open>_resp_received\<close>, \<open>_resp_size\<close> and \<open>_response_ready\<close>.
\<close>

record BluetoothTransport =
  resp_buffer :: memory
  resp_received :: nat
  resp_size :: nat
  response_ready :: bool

text \<open>The reset at the start of \<open>BluetoothTransport::execute\<close>.\<close>

definition reset_response :: "BluetoothTransport \<Rightarrow> BluetoothTransport" where
  "reset_response t = t\<lparr>resp_received := 0, resp_size := 0, response_ready := False\<rparr>"

text \<open>
  The notification handler registered in the constructor, called with one chunk
  \<open>data[0 .. length)\<close>. \<open>size_value + 4\<close> is a \<open>uint32_t\<close> sum. The first branch copies
  the whole chunk to the start of the array whatever its length.
\<close>

definition on_notify :: "BluetoothTransport \<Rightarrow> u8 list \<Rightarrow> BluetoothTransport" where
  "on_notify t data =
     (let len = length data;
          t1 =
            (if resp_size t = 0 \<and> 4 \<le> len
             then
               let size_value =
                     (((ucast (data ! 0) OR push_bit 8 (ucast (data ! 1)))
                        OR push_bit 16 (ucast (data ! 2)))
                        OR push_bit 24 (ucast (data ! 3)) :: u32);
                   rs = unat (size_value + 4);
                   rs' = (if MAX_RESP_SIZE < rs then MAX_RESP_SIZE else rs)
               in t\<lparr>resp_size := rs',
                    resp_buffer := memcpy_at (memset_zero (resp_buffer t) MAX_RESP_SIZE) 0 data len,
                    resp_received := len\<rparr>
             else if resp_received t + len \<le> MAX_RESP_SIZE
             then
               let copyLength =
                     (if MAX_RESP_SIZE < resp_received t + len
                      then MAX_RESP_SIZE - resp_received t else len)
               in if 0 < copyLength
                  then t\<lparr>resp_buffer := memcpy_at (resp_buffer t) (resp_received t) data copyLength,
                         resp_received := resp_received t + copyLength\<rparr>
                  else t
             else t)
      in if resp_size t1 \<le> resp_received t1 then t1\<lparr>response_ready := True\<rparr> else t1)"

text \<open>The chunks of one exchange, delivered in order.\<close>

fun deliver :: "BluetoothTransport \<Rightarrow> u8 list list \<Rightarrow> BluetoothTransport" where
  "deliver t [] = t"
| "deliver t (chunk # chunks) = deliver (on_notify t chunk) chunks"

section \<open>The invariant of the byte buffer\<close>

definition buffer_invariant :: "BytesBuffer \<Rightarrow> bool" where
  "buffer_invariant b = (position b \<le> size_b b \<and> size_b b \<le> capacity b)"

section \<open>Properties\<close>

subsection \<open>Little-endian assembly of words\<close>







subsection \<open>The typed reads\<close>













lemma size_t_add_small: "a + b \<le> SIZE_MAX \<Longrightarrow> size_t_add a b = a + b"
  by (simp add: size_t_add_def SIZE_MAX_def)





lemma readUint32_fail:
  "size_b b < position b + 4 \<Longrightarrow> position b + 4 \<le> SIZE_MAX \<Longrightarrow> readUint32 b = (False, 0, b)"
  by (simp add: readUint32_def size_t_add_small)

lemma readUint32_ok:
  "position b + 4 \<le> size_b b \<Longrightarrow> position b + 4 \<le> SIZE_MAX \<Longrightarrow>
   readUint32 b = (True, le32 (fixed_data b (position b)) (fixed_data b (position b + 1))
                              (fixed_data b (position b + 2)) (fixed_data b (position b + 3)),
                   b\<lparr>position := position b + 4\<rparr>)"
  by (simp add: readUint32_def le32_def Let_def size_t_add_small)















subsection \<open>Spectrum\<close>

text \<open>
  C10. The vector-like interface of \<open>Spectrum\<close> is total and stays in bounds: \<open>at(i)\<close> is
  \<open>counts[i]\<close> for \<open>i < count_size\<close> and 0 for every other index; \<open>push_back\<close> on a
  spectrum with \<open>count_size = MAX_CHANNELS\<close> changes nothing; and \<open>count_size \<le>
  MAX_CHANNELS\<close> is kept by \<open>push_back\<close>, \<open>clear\<close>, the constructor and the copy.
\<close>

theorem Spectrum_interface_safe:
  "(i < count_size s \<longrightarrow> Spectrum_at s i = counts s i)
   \<and> (count_size s \<le> i \<longrightarrow> Spectrum_at s i = 0)
   \<and> (count_size s = MAX_CHANNELS \<longrightarrow> Spectrum_push_back s v = s)
   \<and> (count_size s \<le> MAX_CHANNELS \<longrightarrow> count_size (Spectrum_push_back s v) \<le> MAX_CHANNELS)
   \<and> (count_size s < MAX_CHANNELS \<longrightarrow>
        count_size (Spectrum_push_back s v) = count_size s + 1
        \<and> Spectrum_at (Spectrum_push_back s v) (count_size s) = v)
   \<and> count_size (Spectrum_clear s) \<le> MAX_CHANNELS
   \<and> count_size (Spectrum_void shared) \<le> MAX_CHANNELS
   \<and> count_size (Spectrum_copy s) \<le> MAX_CHANNELS"
  by (simp add: Spectrum_at_def Spectrum_push_back_def Spectrum_clear_def Spectrum_void_def
      Spectrum_copy_def Let_def)

theorem Spectrum_interface_safe_witness:
  "Spectrum_at (Spectrum_push_back (Spectrum_void (\<lambda>_. 7)) 42) 0 = 42
   \<and> Spectrum_at (Spectrum_push_back (Spectrum_void (\<lambda>_. 7)) 42) 1 = 0
   \<and> Spectrum_at (Spectrum_push_back (Spectrum_void (\<lambda>_. 7)) 42) 5000 = 0
   \<and> Spectrum_push_back ((Spectrum_void (\<lambda>_. 7))\<lparr>count_size := MAX_CHANNELS\<rparr>) 42
       = (Spectrum_void (\<lambda>_. 7))\<lparr>count_size := MAX_CHANNELS\<rparr>
   \<and> count_size (Spectrum_push_back (Spectrum_void (\<lambda>_. 7)) 42) = 1"
proof -
  let ?e = "Spectrum_void (\<lambda>_. 7)"
  let ?s = "Spectrum_push_back ?e 42"
  let ?f = "?e\<lparr>count_size := MAX_CHANNELS\<rparr>"
  have e: "count_size ?e = 0" by (simp add: Spectrum_void_def)
  have lt: "count_size ?e < MAX_CHANNELS" by (simp add: Spectrum_void_def MAX_CHANNELS_def)
  from Spectrum_interface_safe [of 0 ?e 42] lt
  have s: "count_size ?s = 1" "Spectrum_at ?s 0 = 42" by (simp_all add: e)
  from Spectrum_interface_safe [of 1 ?s] s have "Spectrum_at ?s 1 = 0" by simp
  moreover from Spectrum_interface_safe [of 5000 ?s] s have "Spectrum_at ?s 5000 = 0" by simp
  moreover from Spectrum_interface_safe [of 0 ?f 42] have "Spectrum_push_back ?f 42 = ?f" by simp
  ultimately show ?thesis using s by simp
qed

subsection \<open>Spectrum format 1\<close>

lemma decodeCountsV1_run_3:
  "decodeCountsV1_run 3 vlen br last_c sp = decodeCountsV1_run (Suc (Suc (Suc 0))) vlen br last_c sp"
  by (simp add: numeral_3_eq_3)

text \<open>
  C6. Decoding the run header \<open>u16 = (3 << 4) | 2 = 0x0032\<close> (three entries, value code 2:
  \<open>int8\<close> deltas) followed by the bytes 5, -2 (\<open>0xFE\<close>) and 10, with the accumulator
  \<open>last\<close> starting at 0, returns, leaves exactly the three counts 5, 3, 13 in the
  spectrum and has consumed all five bytes.
\<close>

theorem decodeCountsV1_delta_run:
  "map_option (\<lambda>(br, sp). (count_size sp, map (counts sp) [0..<count_size sp], position br))
     (decodeCountsV1 (BytesBuffer_data (\<lambda>_. 0) [0x32, 0x00, 5, 0xFE, 10]) (Spectrum_void (\<lambda>_. 0)))
   = Some (3, [5, 3, 13], 5)"
  apply (simp add: decodeCountsV1_def BytesBuffer_data_def MAX_BUFFER_SIZE_def available_def
      Let_def Spectrum_void_def)
  apply (subst decodeCountsV1_loop.simps)
  apply (simp add: available_def readUint16_def size_t_add_def SIZE_MAX_def Let_def
      MAX_CHANNELS_def memcpy_at_def)
  apply (simp add: decodeCountsV1_run_3 decodeCountsV1_entry_def readInt8_def MAX_CHANNELS_def
      store_count_def memcpy_at_def)
  apply (subst decodeCountsV1_loop.simps)
  apply (simp add: available_def upt_rec)
  done

subsection \<open>Telemetry stream\<close>


















subsection \<open>Command layer\<close>


lemma full_request_seq_byte: "full_request rc reqtype args ! 7 = 0x80 + rc_seq rc"
  by (simp add: full_request_def le32_bytes_def req_header_def nth_append)

lemma execute_connection:
  "rc_connection rc \<Longrightarrow> rc_connection (fst (execute rc shared tr reqtype args))"
  by (simp add: execute_def Let_def split: prod.splits)

lemma execute_seq:
  "rc_connection rc \<Longrightarrow>
   rc_seq (fst (execute rc shared tr reqtype args)) = of_nat ((unat (rc_seq rc) + 1) mod 32)"
  by (simp add: execute_def Let_def split: prod.splits)

lemma unat_of_nat_mod32: "unat (of_nat (n mod 32) :: u8) = n mod 32"
proof -
  have "n mod 32 < 2 ^ LENGTH(8)"
    using mod_less_divisor [of 32 n] by simp
  then show ?thesis
    by (simp add: unat_of_nat)
qed

lemma execute_sent:
  "rc_connection rc \<Longrightarrow>
   rc_sent (fst (execute rc shared tr reqtype args)) = rc_sent rc @ [full_request rc reqtype args]"
  by (simp add: execute_def Let_def split: prod.splits)

lemma execute_answer:
  "rc_connection rc \<Longrightarrow>
   snd (execute rc shared tr reqtype args) = snd (readBytes (tr (full_request rc reqtype args)) 4)"
  by (simp add: execute_def Let_def split: prod.splits)

lemma run_calls_sent:
  assumes "rc_connection rc" and "unat (rc_seq rc) < 32"
  shows "\<exists>new. rc_sent (fst (run_calls rc shared calls)) = rc_sent rc @ new
           \<and> length new = length calls
           \<and> length (snd (run_calls rc shared calls)) = length calls
           \<and> (\<forall>k<length calls.
                 new ! k ! 7 = 0x80 + of_nat ((unat (rc_seq rc) + k) mod 32)
                 \<and> snd (run_calls rc shared calls) ! k
                   = snd (readBytes (snd (snd (calls ! k)) (new ! k)) 4))"
  using assms
proof (induction calls arbitrary: rc)
  case Nil
  then show ?case by simp
next
  case (Cons c calls)
  obtain reqtype args tr where c: "c = (reqtype, args, tr)" by (cases c) auto
  let ?rc' = "fst (execute rc shared tr reqtype args)"
  let ?resp = "snd (execute rc shared tr reqtype args)"
  let ?req = "full_request rc reqtype args"
  have conn: "rc_connection ?rc'" using Cons.prems(1) by (rule execute_connection)
  have seq': "unat (rc_seq ?rc') = (unat (rc_seq rc) + 1) mod 32"
    by (simp only: execute_seq [OF Cons.prems(1)] unat_of_nat_mod32)
  have lt: "unat (rc_seq ?rc') < 32"
    unfolding seq' by simp
  from Cons.IH [OF conn lt] obtain new where new:
    "rc_sent (fst (run_calls ?rc' shared calls)) = rc_sent ?rc' @ new"
    "length new = length calls"
    "length (snd (run_calls ?rc' shared calls)) = length calls"
    "\<forall>k<length calls.
        new ! k ! 7 = 0x80 + of_nat ((unat (rc_seq ?rc') + k) mod 32)
        \<and> snd (run_calls ?rc' shared calls) ! k
          = snd (readBytes (snd (snd (calls ! k)) (new ! k)) 4)"
    by blast
  have run: "run_calls rc shared (c # calls)
             = (fst (run_calls ?rc' shared calls), ?resp # snd (run_calls ?rc' shared calls))"
    by (simp add: c split: prod.splits)
  have sent: "rc_sent (fst (run_calls rc shared (c # calls))) = rc_sent rc @ (?req # new)"
    by (simp add: run new(1) execute_sent [OF Cons.prems(1)])
  have each: "(?req # new) ! k ! 7 = 0x80 + of_nat ((unat (rc_seq rc) + k) mod 32)
              \<and> snd (run_calls rc shared (c # calls)) ! k
                = snd (readBytes (snd (snd ((c # calls) ! k)) ((?req # new) ! k)) 4)"
    if k: "k < length (c # calls)" for k
  proof (cases k)
    case 0
    with Cons.prems(2) show ?thesis
      unfolding run by (simp add: c full_request_seq_byte execute_answer [OF Cons.prems(1)])
  next
    case (Suc k')
    with k have k': "k' < length calls" by simp
    have "(unat (rc_seq ?rc') + k') mod 32 = (unat (rc_seq rc) + k) mod 32"
      unfolding seq' Suc by (simp add: mod_add_left_eq)
    with new(4) k' show ?thesis
      unfolding run by (simp add: Suc)
  qed
  from sent new(2) new(3) each show ?case
    by (intro exI [of _ "?req # new"]) (simp add: run)
qed

text \<open>
  C9. On a session with a live connection whose counter starts at 0 (as the constructor
  leaves it), make any sequence of \<open>execute\<close> calls. The transport is handed one request
  per call, and the sequence byte of the \<open>k\<close>-th of them (counting from 0; byte 7 of the
  frame, behind the 4-byte length and the three other header bytes) is
  \<open>0x80 + (k mod 32)\<close>: \<open>0x80, 0x81, \<dots>, 0x9F, 0x80, \<dots>\<close>. The response that the
  \<open>k\<close>-th call returns is what its transport answers to exactly this request, with the
  echoed header read off.
\<close>

theorem execute_sequence_numbers:
  assumes "rc_connection rc" and "rc_seq rc = 0" and "k < length calls"
  shows "length (requests_sent rc shared calls) = length calls
         \<and> requests_sent rc shared calls ! k ! 7 = 0x80 + of_nat (k mod 32)
         \<and> snd (run_calls rc shared calls) ! k
           = snd (readBytes (snd (snd (calls ! k)) (requests_sent rc shared calls ! k)) 4)"
proof -
  from assms(2) have "unat (rc_seq rc) < 32" by simp
  from run_calls_sent [OF assms(1) this, of shared calls] obtain new where new:
    "rc_sent (fst (run_calls rc shared calls)) = rc_sent rc @ new"
    "length new = length calls"
    "\<forall>k<length calls.
        new ! k ! 7 = 0x80 + of_nat ((unat (rc_seq rc) + k) mod 32)
        \<and> snd (run_calls rc shared calls) ! k
          = snd (readBytes (snd (snd (calls ! k)) (new ! k)) 4)"
    by blast
  have "requests_sent rc shared calls = new"
    by (simp add: requests_sent_def new(1))
  with new(2) new(3) assms(2) assms(3) show ?thesis by simp
qed

theorem execute_sequence_numbers_witness:
  "map (\<lambda>k. requests_sent (RadiaCode_init True) (\<lambda>_. 0)
               (replicate 34 (GET_STATUS, [], \<lambda>_. BytesBuffer_void (\<lambda>_. 0))) ! k ! 7)
     [0, 1, 31, 32, 33]
   = [0x80, 0x81, 0x9F, 0x80, 0x81]
   \<and> length (requests_sent (RadiaCode_init True) (\<lambda>_. 0)
               (replicate 34 (GET_STATUS, [], \<lambda>_. BytesBuffer_void (\<lambda>_. 0)))) = 34"
proof -
  let ?calls = "replicate 34 (GET_STATUS, [], \<lambda>_. BytesBuffer_void (\<lambda>_. 0))"
  have rc: "rc_connection (RadiaCode_init True)" "rc_seq (RadiaCode_init True) = 0"
    by (simp_all add: RadiaCode_init_def)
  have "\<And>k. k < 34 \<Longrightarrow>
          length (requests_sent (RadiaCode_init True) (\<lambda>_. 0) ?calls) = 34
          \<and> requests_sent (RadiaCode_init True) (\<lambda>_. 0) ?calls ! k ! 7 = 0x80 + of_nat (k mod 32)"
    using execute_sequence_numbers [OF rc, of _ ?calls "\<lambda>_. 0"] by simp
  from this [of 0] this [of 1] this [of 31] this [of 32] this [of 33] show ?thesis by simp
qed


lemma le32_roundtrip:
  "le32 (ucast m) (ucast (drop_bit 8 m)) (ucast (drop_bit 16 m)) (ucast (drop_bit 24 m)) = m"
proof (rule bit_word_eqI)
  fix n assume n: "n < LENGTH(32)"
  consider "n < 8" | "8 \<le> n" "n < 16" | "16 \<le> n" "n < 24" | "24 \<le> n" "n < 32"
    using n by fastforce
  then show "bit (le32 (ucast m) (ucast (drop_bit 8 m)) (ucast (drop_bit 16 m))
                   (ucast (drop_bit 24 m))) n = bit m n"
    unfolding le32_def by cases (auto simp add: bit_simps)
qed

lemma length_le32_bytes: "length (le32_bytes v) = 4"
  by (simp add: le32_bytes_def)

lemma BytesBuffer_data_fields:
  "size_b (BytesBuffer_data m bs) = min MAX_BUFFER_SIZE (length bs)"
  "position (BytesBuffer_data m bs) = 0"
  "capacity (BytesBuffer_data m bs) = MAX_BUFFER_SIZE"
  by (simp_all add: BytesBuffer_data_def Let_def)

lemma BytesBuffer_data_byte:
  "i < length bs \<Longrightarrow> i < MAX_BUFFER_SIZE \<Longrightarrow> fixed_data (BytesBuffer_data m bs) i = bs ! i"
  by (auto simp add: BytesBuffer_data_def Let_def memcpy_at_def)

lemma execute_connected:
  assumes "rc_connection rc" and "position (tr (full_request rc reqtype args)) = 0"
    and "4 \<le> size_b (tr (full_request rc reqtype args))"
  shows "snd (execute rc shared tr reqtype args) = (tr (full_request rc reqtype args))\<lparr>position := 4\<rparr>"
  using assms by (simp add: execute_def readBytes_def Let_def min_def split: prod.splits)

lemma batchReadVSFRs_mask:
  assumes "rc_connection rc" and "length hdr = 4"
    and "tr (full_request rc RD_VIRT_SFR_BATCH (batch_message vsfr_ids))
         = BytesBuffer_data m (hdr @ le32_bytes valid_flags @ raw)"
    and "vsfr_ids \<noteq> []"
  shows "snd (batchReadVSFRs rc shared tr vsfr_ids undefined_shift)
         = (if valid_flags \<noteq> (if length vsfr_ids < 32 then push_bit (length vsfr_ids) 1 - 1
                                  else undefined_shift)
            then []
            else batch_values vsfr_ids
                   ((BytesBuffer_data m (hdr @ le32_bytes valid_flags @ raw))\<lparr>position := 8\<rparr>))"
proof -
  let ?bs = "hdr @ le32_bytes valid_flags @ raw"
  let ?b0 = "BytesBuffer_data m ?bs"
  let ?r = "?b0\<lparr>position := 4\<rparr>"
  have len: "8 \<le> length ?bs" using assms(2) by (simp add: length_le32_bytes)
  then have sz: "8 \<le> size_b ?b0"
    by (simp add: BytesBuffer_data_fields MAX_BUFFER_SIZE_def)
  have ex: "snd (execute rc shared tr RD_VIRT_SFR_BATCH (batch_message vsfr_ids)) = ?r"
    using execute_connected [OF assms(1), of tr RD_VIRT_SFR_BATCH "batch_message vsfr_ids" shared]
      sz by (simp add: assms(3) BytesBuffer_data_fields)
  have byte: "\<And>j. j < 4 \<Longrightarrow> fixed_data ?r (4 + j) = le32_bytes valid_flags ! j"
    using assms(2) len
    by (simp add: BytesBuffer_data_byte MAX_BUFFER_SIZE_def nth_append length_le32_bytes)
  have b4: "fixed_data ?r 4 = ucast valid_flags"
    using byte [of 0] by (simp add: le32_bytes_def)
  have b5: "fixed_data ?r 5 = ucast (drop_bit 8 valid_flags)"
    using byte [of 1] by (simp add: le32_bytes_def)
  have b6: "fixed_data ?r 6 = ucast (drop_bit 16 valid_flags)"
    using byte [of 2] by (simp add: le32_bytes_def)
  have b7: "fixed_data ?r 7 = ucast (drop_bit 24 valid_flags)"
    using byte [of 3] by (simp add: le32_bytes_def)
  have "position ?r + 4 \<le> size_b ?r" "position ?r + 4 \<le> SIZE_MAX"
    using sz by (simp_all add: SIZE_MAX_def)
  from readUint32_ok [OF this]
  have "readUint32 ?r = (True, le32 (fixed_data ?r 4) (fixed_data ?r 5) (fixed_data ?r 6)
         (fixed_data ?r 7), ?r\<lparr>position := 8\<rparr>)"
    by simp
  then have rd: "readUint32 ?r = (True, valid_flags, ?b0\<lparr>position := 8\<rparr>)"
    by (simp only: b4 b5 b6 b7 le32_roundtrip) simp
  obtain rc' where "execute rc shared tr RD_VIRT_SFR_BATCH (batch_message vsfr_ids) = (rc', ?r)"
    using ex by (cases "execute rc shared tr RD_VIRT_SFR_BATCH (batch_message vsfr_ids)") auto
  with assms(4) rd show ?thesis
    by (simp add: batchReadVSFRs_def Let_def)
qed

text \<open>
  C8. For a request of \<open>N\<close> register IDs, \<open>N < 32\<close> so that \<open>1 << N\<close> has a value:
  whenever the response to the batch read carries, behind the echoed header, a validity
  bitmask different from \<open>(1 << N) - 1\<close>, \<open>batchReadVSFRs\<close> returns the empty vector,
  whatever raw values follow. The witness is the case of three IDs and the bitmask
  \<open>0b011\<close>, beside the bitmask \<open>0b111\<close> for which the three values are returned.
\<close>

theorem batchReadVSFRs_rejects_bad_mask:
  assumes "rc_connection rc" and "length hdr = 4"
    and "tr (full_request rc RD_VIRT_SFR_BATCH (batch_message vsfr_ids))
         = BytesBuffer_data m (hdr @ le32_bytes valid_flags @ raw)"
    and "length vsfr_ids < 32"
    and "valid_flags \<noteq> push_bit (length vsfr_ids) 1 - 1"
  shows "snd (batchReadVSFRs rc shared tr vsfr_ids undefined_shift) = []"
proof (cases "vsfr_ids = []")
  case True
  then show ?thesis by (simp add: batchReadVSFRs_def)
next
  case False
  from batchReadVSFRs_mask [where rc = rc and tr = tr and hdr = hdr and m = m
      and vsfr_ids = vsfr_ids and valid_flags = valid_flags and raw = raw and shared = shared
      and undefined_shift = undefined_shift] assms False
  show ?thesis by simp
qed

theorem batchReadVSFRs_rejects_bad_mask_witness:
  "snd (batchReadVSFRs (RadiaCode_init True) (\<lambda>_. 0)
          (\<lambda>_. BytesBuffer_data (\<lambda>_. 0)
                 ([0x2A, 0x08, 0x00, 0x80] @ le32_bytes 3
                   @ [0x00, 0x00, 0x80, 0x3F, 0x00, 0x00, 0x00, 0x40, 0x00, 0x00, 0x40, 0x40]))
          [CHN_TO_keV_A0, CHN_TO_keV_A1, CHN_TO_keV_A2] 0) = []
   \<and> snd (batchReadVSFRs (RadiaCode_init True) (\<lambda>_. 0)
          (\<lambda>_. BytesBuffer_data (\<lambda>_. 0)
                 ([0x2A, 0x08, 0x00, 0x80] @ le32_bytes 7
                   @ [0x00, 0x00, 0x80, 0x3F, 0x00, 0x00, 0x00, 0x40, 0x00, 0x00, 0x40, 0x40]))
          [CHN_TO_keV_A0, CHN_TO_keV_A1, CHN_TO_keV_A2] 0)
       = [Float_of_bits 0x3F800000, Float_of_bits 0x40000000, Float_of_bits 0x40400000]"
proof -
  let ?ids = "[CHN_TO_keV_A0, CHN_TO_keV_A1, CHN_TO_keV_A2]"
  let ?hdr = "[0x2A, 0x08, 0x00, 0x80] :: u8 list"
  let ?raw = "[0x00, 0x00, 0x80, 0x3F, 0x00, 0x00, 0x00, 0x40, 0x00, 0x00, 0x40, 0x40] :: u8 list"
  let ?good = "BytesBuffer_data (\<lambda>_. 0) (?hdr @ le32_bytes 7 @ ?raw)"
  have c: "rc_connection (RadiaCode_init True)" by (simp add: RadiaCode_init_def)
  have n: "length ?ids < 32" "?ids \<noteq> []" by simp_all
  have "(3 :: u32) \<noteq> push_bit (length ?ids) 1 - 1"
    by simp
  from batchReadVSFRs_rejects_bad_mask [where rc = "RadiaCode_init True" and hdr = ?hdr
      and tr = "\<lambda>_. BytesBuffer_data (\<lambda>_. 0) (?hdr @ le32_bytes 3 @ ?raw)"
      and vsfr_ids = ?ids and m = "\<lambda>_. 0" and valid_flags = 3 and raw = ?raw
      and shared = "\<lambda>_. 0" and undefined_shift = 0, OF c _ refl n(1) this]
  have bad: "snd (batchReadVSFRs (RadiaCode_init True) (\<lambda>_. 0)
          (\<lambda>_. BytesBuffer_data (\<lambda>_. 0) (?hdr @ le32_bytes 3 @ ?raw)) ?ids 0) = []"
    by simp
  have len: "length (?hdr @ le32_bytes 7 @ ?raw) = 20" by (simp add: le32_bytes_def)
  have g: "?good = \<lparr>fixed_data = memcpy_at (memset_zero (\<lambda>_. 0) 16) 0
                                    (?hdr @ le32_bytes 7 @ ?raw) 20,
                     size_b = 20, capacity = 4096, position = 0\<rparr>"
    unfolding BytesBuffer_data_def Let_def len by (simp add: MAX_BUFFER_SIZE_def)
  have vals: "batch_values ?ids (?good\<lparr>position := 8\<rparr>)
              = [Float_of_bits 0x3F800000, Float_of_bits 0x40000000, Float_of_bits 0x40400000]"
    unfolding g
    by (simp add: readUint32_def Let_def size_t_add_def SIZE_MAX_def memcpy_at_def le32_bytes_def
        vsfr_value_def CHN_TO_keV_A0_def CHN_TO_keV_A1_def CHN_TO_keV_A2_def)
  have "snd (batchReadVSFRs (RadiaCode_init True) (\<lambda>_. 0) (\<lambda>_. ?good) ?ids 0)
        = batch_values ?ids (?good\<lparr>position := 8\<rparr>)"
    using batchReadVSFRs_mask [where rc = "RadiaCode_init True" and hdr = ?hdr
      and tr = "\<lambda>_. ?good" and vsfr_ids = ?ids and m = "\<lambda>_. 0" and valid_flags = 7
      and raw = ?raw and shared = "\<lambda>_. 0" and undefined_shift = 0, OF c _ refl n(2)]
    by simp
  with vals bad show ?thesis by simp
qed


lemma size_minus_one_wraps:
  fixes n :: nat
  assumes "0 < n" and "n < 2 ^ 32"
  shows "(n + 2 ^ 32 - 1) mod 2 ^ 32 = n - 1"
proof -
  from assms(1) have "n + 2 ^ 32 - 1 = (n - 1) + 2 ^ 32" by simp
  then have "(n + 2 ^ 32 - 1) mod 2 ^ 32 = ((n - 1) + 2 ^ 32) mod 2 ^ 32" by (rule arg_cong)
  also have "\<dots> = (n - 1) mod 2 ^ 32" by (simp only: mod_add_self2)
  also have "\<dots> = n - 1" using assms(2) by simp
  finally show ?thesis .
qed

lemma execute_response:
  assumes "rc_connection rc" and "tr (full_request rc reqtype args) = resp" and "position resp = 0"
  shows "snd (execute rc shared tr reqtype args) = resp\<lparr>position := min 4 (size_b resp)\<rparr>"
  using assms by (simp add: execute_def readBytes_def Let_def min_def split: prod.splits)

lemma readRequest_short:
  assumes "rc_connection rc"
    and "tr (full_request rc RD_VIRT_STRING (le32_bytes command_id)) = r0"
    and "position r0 = 0" and "size_b r0 < 12"
  shows "snd (readRequest rc shared tr command_id u) = BytesBuffer_void (fixed_data r0)"
proof -
  obtain rc' r where ex: "execute rc shared tr RD_VIRT_STRING (le32_bytes command_id) = (rc', r)"
    by (cases "execute rc shared tr RD_VIRT_STRING (le32_bytes command_id)") auto
  moreover note execute_response [where rc = rc and tr = tr and reqtype = RD_VIRT_STRING
      and args = "le32_bytes command_id" and resp = r0 and shared = shared]
  ultimately have r: "r = r0\<lparr>position := min 4 (size_b r0)\<rparr>"
    using assms(1-3) by simp
  show ?thesis
  proof (cases "size_b r0 < 8")
    case True
    with ex r show ?thesis by (simp add: readRequest_def getSize_def)
  next
    case False
    then have r4: "r = r0\<lparr>position := 4\<rparr>" using r by (simp add: min_def)
    have 1: "readUint32 r = (True, resp_retcode r0, r0\<lparr>position := 8\<rparr>)"
      using False readUint32_ok [of r] by (simp add: r4 resp_retcode_def SIZE_MAX_def)
    have 2: "readUint32 (r0\<lparr>position := 8\<rparr>) = (False, 0, r0\<lparr>position := 8\<rparr>)"
      using assms(4) readUint32_fail [of "r0\<lparr>position := 8\<rparr>"] by (simp add: SIZE_MAX_def)
    from ex False 1 2 show ?thesis
      by (simp add: readRequest_def getSize_def r4)
  qed
qed

lemma readRequest_long:
  assumes "rc_connection rc"
    and "tr (full_request rc RD_VIRT_STRING (le32_bytes command_id)) = r0"
    and "position r0 = 0" and "12 \<le> size_b r0"
    and "size_b r0 = 12 \<longrightarrow> resp_flen r0 \<noteq> - 1"
  shows "snd (readRequest rc shared tr command_id u) = r0\<lparr>position := 12\<rparr>
       \<or> snd (readRequest rc shared tr command_id u) = r0\<lparr>position := 12, size_b := size_b r0 - 1\<rparr>
          \<and> 12 < size_b r0"
proof -
  obtain rc' r where ex: "execute rc shared tr RD_VIRT_STRING (le32_bytes command_id) = (rc', r)"
    by (cases "execute rc shared tr RD_VIRT_STRING (le32_bytes command_id)") auto
  moreover note execute_response [where rc = rc and tr = tr and reqtype = RD_VIRT_STRING
      and args = "le32_bytes command_id" and resp = r0 and shared = shared]
  ultimately have r4: "r = r0\<lparr>position := 4\<rparr>"
    using assms(1-4) by (simp add: min_def)
  let ?r2 = "r0\<lparr>position := 12\<rparr>"
  let ?rem = "size_b r0 - 12"
  have 1: "readUint32 r = (True, resp_retcode r0, r0\<lparr>position := 8\<rparr>)"
    using assms(4) readUint32_ok [of r] by (simp add: r4 resp_retcode_def SIZE_MAX_def)
  have 2: "readUint32 (r0\<lparr>position := 8\<rparr>) = (True, resp_flen r0, ?r2)"
    using assms(4) readUint32_ok [of "r0\<lparr>position := 8\<rparr>"]
    by (simp add: resp_flen_def SIZE_MAX_def)
  show ?thesis
  proof (cases "?rem = unat (resp_flen r0 + 1)")
    case False
    with ex 1 2 assms(4) have "snd (readRequest rc shared tr command_id u) = ?r2"
      by (simp add: readRequest_def getSize_def available_def r4 Let_def)
    then show ?thesis by simp
  next
    case True
    have pos: "0 < ?rem"
    proof (rule ccontr)
      assume "\<not> 0 < ?rem"
      with assms(4) have sz: "size_b r0 = 12" by simp
      with True have "unat (resp_flen r0 + 1) = 0" by simp
      then have "resp_flen r0 + 1 = 0" by (simp add: unat_eq_0)
      then have "resp_flen r0 = - 1" by (simp only: eq_neg_iff_add_eq_0)
      with assms(5) sz show False by simp
    qed
    have lt: "?rem < 2 ^ 32"
      using True unsigned_less [of "resp_flen r0 + 1", where 'a = nat] by simp
    have off: "(?rem + 2 ^ 32 - 1) mod 2 ^ 32 = ?rem - 1"
      using pos lt by (rule size_minus_one_wraps)
    have pk: "peekBytes ?r2 (?rem - 1) 1 = (True, [fixed_data r0 (?rem - 1)])"
      using pos lt by (simp add: peekBytes_def Let_def mem_bytes_def size_t_add_def SIZE_MAX_def)
    have st: "setSize ?r2 (12 + ?rem - 1) = r0\<lparr>position := 12, size_b := size_b r0 - 1\<rparr>"
      using pos assms(4) by (simp add: setSize_def Let_def ensureCapacity_def)
    have "snd (readRequest rc shared tr command_id u)
          = (if fixed_data r0 (?rem - 1) = 0 then setSize ?r2 (12 + ?rem - 1) else ?r2)"
      using ex 1 2 assms(4) True off pk
      by (simp add: readRequest_def getSize_def getPosition_def available_def r4 Let_def)
    with st pos show ?thesis by auto
  qed
qed


lemma readRequest_quirk:
  assumes "rc_connection rc"
    and "tr (full_request rc RD_VIRT_STRING (le32_bytes command_id)) = r0"
    and "position r0 = 0" and "12 < size_b r0"
    and "size_b r0 - 12 = unat (resp_flen r0 + 1)"
  shows "snd (readRequest rc shared tr command_id u)
         = (if fixed_data r0 (size_b r0 - 13) = 0
            then r0\<lparr>position := 12, size_b := size_b r0 - 1\<rparr>
            else r0\<lparr>position := 12\<rparr>)"
proof -
  obtain rc' r where ex: "execute rc shared tr RD_VIRT_STRING (le32_bytes command_id) = (rc', r)"
    by (cases "execute rc shared tr RD_VIRT_STRING (le32_bytes command_id)") auto
  moreover note execute_response [where rc = rc and tr = tr and reqtype = RD_VIRT_STRING
      and args = "le32_bytes command_id" and resp = r0 and shared = shared]
  ultimately have r4: "r = r0\<lparr>position := 4\<rparr>"
    using assms(1-4) by (simp add: min_def)
  let ?r2 = "r0\<lparr>position := 12\<rparr>"
  let ?rem = "size_b r0 - 12"
  have 1: "readUint32 r = (True, resp_retcode r0, r0\<lparr>position := 8\<rparr>)"
    using assms(4) readUint32_ok [of r] by (simp add: r4 resp_retcode_def SIZE_MAX_def)
  have 2: "readUint32 (r0\<lparr>position := 8\<rparr>) = (True, resp_flen r0, ?r2)"
    using assms(4) readUint32_ok [of "r0\<lparr>position := 8\<rparr>"]
    by (simp add: resp_flen_def SIZE_MAX_def)
  have pos: "0 < ?rem" using assms(4) by simp
  have lt: "?rem < 2 ^ 32"
    using assms(5) unsigned_less [of "resp_flen r0 + 1", where 'a = nat] by simp
  have off: "(?rem + 2 ^ 32 - 1) mod 2 ^ 32 = ?rem - 1"
    using pos lt by (rule size_minus_one_wraps)
  have idx: "?rem - 1 = size_b r0 - 13" by simp
  have pk: "peekBytes ?r2 (?rem - 1) 1 = (True, [fixed_data r0 (?rem - 1)])"
    using pos lt by (simp add: peekBytes_def Let_def mem_bytes_def size_t_add_def SIZE_MAX_def)
  have st: "setSize ?r2 (12 + ?rem - 1) = r0\<lparr>position := 12, size_b := size_b r0 - 1\<rparr>"
    using pos assms(4) by (simp add: setSize_def Let_def ensureCapacity_def)
  have "snd (readRequest rc shared tr command_id u)
        = (if fixed_data r0 (?rem - 1) = 0 then setSize ?r2 (12 + ?rem - 1) else ?r2)"
    using ex 1 2 assms(4) assms(5) off pk
    by (simp add: readRequest_def getSize_def getPosition_def available_def r4 Let_def)
  then show ?thesis unfolding st idx .
qed

text \<open>
  C4, as the code has it. Let the transport hand back a fresh buffer \<open>r0\<close> (cursor 0).
  If it holds fewer than 8 bytes, or at least 8 but fewer than the 12 that the echoed
  header and the inner header \<open>{retcode, length}\<close> take, \<open>readRequest\<close> returns an empty
  buffer. Otherwise, whatever the return code is, it returns the response with the
  cursor at offset 12, right behind the inner header, and with the size unchanged or one
  less (the case of a 12-byte response that declares the length \<open>0xFFFFFFFF\<close> is left
  out: there the source reads a variable it never wrote).
\<close>

theorem readRequest_amended:
  assumes "rc_connection rc"
    and "tr (full_request rc RD_VIRT_STRING (le32_bytes command_id)) = r0"
    and "position r0 = 0"
  shows "(size_b r0 < 8 \<longrightarrow>
            size_b (snd (readRequest rc shared tr command_id u)) = 0
            \<and> position (snd (readRequest rc shared tr command_id u)) = 0)
       \<and> (8 \<le> size_b r0 \<and> size_b r0 < 12 \<longrightarrow>
            size_b (snd (readRequest rc shared tr command_id u)) = 0
            \<and> position (snd (readRequest rc shared tr command_id u)) = 0)
       \<and> (12 \<le> size_b r0 \<and> (size_b r0 = 12 \<longrightarrow> resp_flen r0 \<noteq> - 1) \<longrightarrow>
            position (snd (readRequest rc shared tr command_id u)) = 12
            \<and> fixed_data (snd (readRequest rc shared tr command_id u)) = fixed_data r0
            \<and> 12 \<le> size_b (snd (readRequest rc shared tr command_id u))
            \<and> (size_b (snd (readRequest rc shared tr command_id u)) = size_b r0
                \<or> size_b (snd (readRequest rc shared tr command_id u)) + 1 = size_b r0))"
proof (intro conjI impI)
  assume "size_b r0 < 8"
  then have "size_b r0 < 12" by simp
  from readRequest_short [where rc = rc and tr = tr and command_id = command_id
      and ?r0.0 = r0 and shared = shared and u = u] assms this
  show "size_b (snd (readRequest rc shared tr command_id u)) = 0"
    and "position (snd (readRequest rc shared tr command_id u)) = 0"
    by (simp_all add: BytesBuffer_void_def)
next
  assume "8 \<le> size_b r0 \<and> size_b r0 < 12"
  then have "size_b r0 < 12" by simp
  from readRequest_short [where rc = rc and tr = tr and command_id = command_id
      and ?r0.0 = r0 and shared = shared and u = u] assms this
  show "size_b (snd (readRequest rc shared tr command_id u)) = 0"
    and "position (snd (readRequest rc shared tr command_id u)) = 0"
    by (simp_all add: BytesBuffer_void_def)
next
  assume a: "12 \<le> size_b r0 \<and> (size_b r0 = 12 \<longrightarrow> resp_flen r0 \<noteq> - 1)"
  then have 1: "12 \<le> size_b r0" and 2: "size_b r0 = 12 \<longrightarrow> resp_flen r0 \<noteq> - 1"
    by simp_all
  from readRequest_long [where rc = rc and tr = tr and command_id = command_id
      and ?r0.0 = r0 and shared = shared and u = u] assms 1 2
  show "position (snd (readRequest rc shared tr command_id u)) = 12"
    and "fixed_data (snd (readRequest rc shared tr command_id u)) = fixed_data r0"
    and "12 \<le> size_b (snd (readRequest rc shared tr command_id u))"
    and "size_b (snd (readRequest rc shared tr command_id u)) = size_b r0
         \<or> size_b (snd (readRequest rc shared tr command_id u)) + 1 = size_b r0"
    using 1 by auto
qed

theorem readRequest_amended_witness:
  "position (snd (readRequest (RadiaCode_init True) (\<lambda>_. 0)
       (\<lambda>_. BytesBuffer_data (\<lambda>_. 0) [0x26, 0x08, 0x00, 0x80, 0, 0, 0, 0, 1, 0, 0, 0, 0x55])
       2 0)) = 12
   \<and> size_b (snd (readRequest (RadiaCode_init True) (\<lambda>_. 0)
       (\<lambda>_. BytesBuffer_data (\<lambda>_. 0) [0x26, 0x08, 0x00, 0x80, 1, 0, 0, 0, 1, 0])
       2 0)) = 0"
proof -
  let ?long = "BytesBuffer_data (\<lambda>_. 0) [0x26, 0x08, 0x00, 0x80, 0, 0, 0, 0, 1, 0, 0, 0, 0x55]"
  let ?short = "BytesBuffer_data (\<lambda>_. (0::u8)) [0x26, 0x08, 0x00, 0x80, 1, 0, 0, 0, 1, 0]"
  have c: "rc_connection (RadiaCode_init True)" by (simp add: RadiaCode_init_def)
  have l: "position ?long = 0" "size_b ?long = 13"
    by (simp_all add: BytesBuffer_data_fields MAX_BUFFER_SIZE_def)
  have s: "position ?short = 0" "size_b ?short = 10"
    by (simp_all add: BytesBuffer_data_fields MAX_BUFFER_SIZE_def)
  from readRequest_amended [where rc = "RadiaCode_init True" and tr = "\<lambda>_. ?long"
      and ?r0.0 = ?long and command_id = 2 and shared = "\<lambda>_. 0" and u = 0, OF c refl l(1)]
  have "position (snd (readRequest (RadiaCode_init True) (\<lambda>_. 0) (\<lambda>_. ?long) 2 0)) = 12"
    by (simp add: l)
  moreover
  from readRequest_amended [where rc = "RadiaCode_init True" and tr = "\<lambda>_. ?short"
      and ?r0.0 = ?short and command_id = 2 and shared = "\<lambda>_. 0" and u = 0, OF c refl s(1)]
  have "size_b (snd (readRequest (RadiaCode_init True) (\<lambda>_. 0) (\<lambda>_. ?short) 2 0)) = 0"
    by (simp add: s)
  ultimately show ?thesis by blast
qed


lemma readRequest_plain:
  assumes "rc_connection rc"
    and "tr (full_request rc RD_VIRT_STRING (le32_bytes command_id)) = r0"
    and "position r0 = 0" and "12 \<le> size_b r0"
    and "size_b r0 - 12 \<noteq> unat (resp_flen r0 + 1)"
  shows "snd (readRequest rc shared tr command_id u) = r0\<lparr>position := 12\<rparr>"
proof -
  obtain rc' r where ex: "execute rc shared tr RD_VIRT_STRING (le32_bytes command_id) = (rc', r)"
    by (cases "execute rc shared tr RD_VIRT_STRING (le32_bytes command_id)") auto
  moreover note execute_response [where rc = rc and tr = tr and reqtype = RD_VIRT_STRING
      and args = "le32_bytes command_id" and resp = r0 and shared = shared]
  ultimately have r4: "r = r0\<lparr>position := 4\<rparr>"
    using assms(1-4) by (simp add: min_def)
  have 1: "readUint32 r = (True, resp_retcode r0, r0\<lparr>position := 8\<rparr>)"
    using assms(4) readUint32_ok [of r] by (simp add: r4 resp_retcode_def SIZE_MAX_def)
  have 2: "readUint32 (r0\<lparr>position := 8\<rparr>) = (True, resp_flen r0, r0\<lparr>position := 12\<rparr>)"
    using assms(4) readUint32_ok [of "r0\<lparr>position := 8\<rparr>"]
    by (simp add: resp_flen_def SIZE_MAX_def)
  from ex 1 2 assms(4) assms(5) show ?thesis
    by (simp add: readRequest_def getSize_def available_def r4 Let_def)
qed

text \<open>
  The claim C4 as it stands fails where the return code is not 1: for a response with
  return code 0, declared length 1 and one byte of data, \<open>readRequest\<close> returns the
  13-byte response with the cursor at 12, not an empty buffer.
\<close>

theorem readRequest_bad_retcode_counterexample:
  "resp_retcode (BytesBuffer_data (\<lambda>_. 0) [0x26, 0x08, 0x00, 0x80, 0, 0, 0, 0, 1, 0, 0, 0, 0x55]) = 0
   \<and> snd (readRequest (RadiaCode_init True) (\<lambda>_. 0)
          (\<lambda>_. BytesBuffer_data (\<lambda>_. 0) [0x26, 0x08, 0x00, 0x80, 0, 0, 0, 0, 1, 0, 0, 0, 0x55])
          2 0)
     = (BytesBuffer_data (\<lambda>_. 0) [0x26, 0x08, 0x00, 0x80, 0, 0, 0, 0, 1, 0, 0, 0, 0x55])
         \<lparr>position := 12\<rparr>
   \<and> size_b (BytesBuffer_data (\<lambda>_. 0) [0x26, 0x08, 0x00, 0x80, 0, 0, 0, 0, 1, 0, 0, 0, 0x55]) = 13"
proof -
  let ?r0 = "BytesBuffer_data (\<lambda>_. 0) [0x26, 0x08, 0x00, 0x80, 0, 0, 0, 0, 1, 0, 0, 0, 0x55]"
  have c: "rc_connection (RadiaCode_init True)" by (simp add: RadiaCode_init_def)
  have f: "position ?r0 = 0" "size_b ?r0 = 13"
    by (simp_all add: BytesBuffer_data_fields MAX_BUFFER_SIZE_def)
  have rc: "resp_retcode ?r0 = 0"
    by (simp add: resp_retcode_def BytesBuffer_data_byte MAX_BUFFER_SIZE_def le32_def)
  have fl: "resp_flen ?r0 = 1"
    by (simp add: resp_flen_def BytesBuffer_data_byte MAX_BUFFER_SIZE_def le32_def)
  have "snd (readRequest (RadiaCode_init True) (\<lambda>_. 0) (\<lambda>_. ?r0) 2 0) = ?r0\<lparr>position := 12\<rparr>"
    by (rule readRequest_plain [where tr = "\<lambda>_. ?r0", OF c refl f(1)]) (simp_all add: f fl)
  with rc f show ?thesis by simp
qed

text \<open>
  C5. The claim asks that, when exactly \<open>L + 1\<close> bytes remain behind the inner header
  and the last of them is zero, that byte is dropped, and that nothing changes otherwise.
  The source looks at the byte at offset \<open>remaining_size - 1\<close> counted from the start of
  the buffer (\<open>peekBytes\<close> takes an absolute offset), not from the cursor; by
  \<open>readRequest_quirk\<close> that is offset \<open>size - 13\<close>, a byte of the headers or of the
  data, while the last byte lies at \<open>size - 1\<close>. Two responses show both ways of going
  wrong. With \<open>L = 4\<close>, data \<open>41 42 43 44\<close> and a trailing \<open>00\<close>, the byte examined is
  the low byte of the return code (1), and the trailing zero stays: the size remains 17.
  With \<open>L = 2\<close>, data \<open>41 42\<close> and a trailing \<open>43\<close>, the byte examined is the reserved
  zero of the echoed header, and the non-zero byte \<open>43\<close> is cut off: the size becomes 14.
\<close>

theorem readRequest_trailing_byte_slip:
  "snd (readRequest (RadiaCode_init True) (\<lambda>_. 0)
       (\<lambda>_. BytesBuffer_data (\<lambda>_. 0)
              [0x26, 0x08, 0x00, 0x80, 1, 0, 0, 0, 4, 0, 0, 0, 0x41, 0x42, 0x43, 0x44, 0x00])
       2 u)
     = (BytesBuffer_data (\<lambda>_. 0)
          [0x26, 0x08, 0x00, 0x80, 1, 0, 0, 0, 4, 0, 0, 0, 0x41, 0x42, 0x43, 0x44, 0x00])
         \<lparr>position := 12\<rparr>
   \<and> snd (readRequest (RadiaCode_init True) (\<lambda>_. 0)
       (\<lambda>_. BytesBuffer_data (\<lambda>_. 0)
              [0x26, 0x08, 0x00, 0x80, 1, 0, 0, 0, 2, 0, 0, 0, 0x41, 0x42, 0x43])
       2 u)
     = (BytesBuffer_data (\<lambda>_. 0)
          [0x26, 0x08, 0x00, 0x80, 1, 0, 0, 0, 2, 0, 0, 0, 0x41, 0x42, 0x43])
         \<lparr>position := 12, size_b := 14\<rparr>"
proof -
  let ?a = "BytesBuffer_data (\<lambda>_. 0)
              [0x26, 0x08, 0x00, 0x80, 1, 0, 0, 0, 4, 0, 0, 0, 0x41, 0x42, 0x43, 0x44, 0x00]"
  let ?b = "BytesBuffer_data (\<lambda>_. 0)
              [0x26, 0x08, 0x00, 0x80, 1, 0, 0, 0, 2, 0, 0, 0, 0x41, 0x42, 0x43]"
  have c: "rc_connection (RadiaCode_init True)" by (simp add: RadiaCode_init_def)
  have a: "position ?a = 0" "size_b ?a = 17" "resp_flen ?a = 4" "fixed_data ?a 4 = 1"
    by (simp_all add: BytesBuffer_data_fields resp_flen_def BytesBuffer_data_byte
        MAX_BUFFER_SIZE_def le32_def)
  have b: "position ?b = 0" "size_b ?b = 15" "resp_flen ?b = 2" "fixed_data ?b 2 = 0"
    by (simp_all add: BytesBuffer_data_fields resp_flen_def BytesBuffer_data_byte
        MAX_BUFFER_SIZE_def le32_def)
  have "snd (readRequest (RadiaCode_init True) (\<lambda>_. 0) (\<lambda>_. ?a) 2 u)
        = (if fixed_data ?a (size_b ?a - 13) = 0
           then ?a\<lparr>position := 12, size_b := size_b ?a - 1\<rparr> else ?a\<lparr>position := 12\<rparr>)"
    by (rule readRequest_quirk [where tr = "\<lambda>_. ?a", OF c refl a(1)]) (simp_all add: a)
  moreover have "snd (readRequest (RadiaCode_init True) (\<lambda>_. 0) (\<lambda>_. ?b) 2 u)
        = (if fixed_data ?b (size_b ?b - 13) = 0
           then ?b\<lparr>position := 12, size_b := size_b ?b - 1\<rparr> else ?b\<lparr>position := 12\<rparr>)"
    by (rule readRequest_quirk [where tr = "\<lambda>_. ?b", OF c refl b(1)]) (simp_all add: b)
  ultimately show ?thesis by (simp add: a b)
qed

subsection \<open>Frame reassembly\<close>


lemma memcpy_at_append:
  "memcpy_at (memcpy_at m r a (length a)) (r + length a) b (length b)
   = memcpy_at m r (a @ b) (length a + length b)"
  by (rule ext) (auto simp add: memcpy_at_def nth_append)

lemma memcpy_at_nothing: "memcpy_at m r a 0 = m"
  by (rule ext) (auto simp add: memcpy_at_def)

lemma on_notify_append:
  assumes "0 < resp_size t" and "resp_received t + length c \<le> MAX_RESP_SIZE"
  shows "on_notify t c
         = t\<lparr>resp_buffer := memcpy_at (resp_buffer t) (resp_received t) c (length c),
              resp_received := resp_received t + length c,
              response_ready := response_ready t \<or> resp_size t \<le> resp_received t + length c\<rparr>"
  using assms by (cases "length c = 0") (auto simp add: on_notify_def Let_def memcpy_at_nothing)

lemma deliver_append:
  assumes "0 < resp_size t" and "resp_received t + length (concat cs) \<le> resp_size t"
    and "resp_size t \<le> MAX_RESP_SIZE"
  shows "deliver t cs
         = t\<lparr>resp_buffer := memcpy_at (resp_buffer t) (resp_received t) (concat cs) (length (concat cs)),
              resp_received := resp_received t + length (concat cs),
              response_ready := response_ready t
                 \<or> (cs \<noteq> [] \<and> resp_size t \<le> resp_received t + length (concat cs))\<rparr>"
  using assms
proof (induction cs arbitrary: t)
  case Nil
  then show ?case by (simp add: memcpy_at_nothing)
next
  case (Cons c cs)
  let ?t' = "on_notify t c"
  have step: "?t' = t\<lparr>resp_buffer := memcpy_at (resp_buffer t) (resp_received t) c (length c),
              resp_received := resp_received t + length c,
              response_ready := response_ready t \<or> resp_size t \<le> resp_received t + length c\<rparr>"
    using Cons.prems by (intro on_notify_append) simp_all
  have 1: "0 < resp_size ?t'" using Cons.prems(1) by (simp add: step)
  have 2: "resp_received ?t' + length (concat cs) \<le> resp_size ?t'"
    using Cons.prems(2) by (simp add: step)
  have 3: "resp_size ?t' \<le> MAX_RESP_SIZE" using Cons.prems(3) by (simp add: step)
  have ready: "(response_ready ?t' \<or> (cs \<noteq> [] \<and> resp_size ?t' \<le> resp_received ?t' + length (concat cs)))
      = (response_ready t \<or> resp_size t \<le> resp_received t + length (concat (c # cs)))"
  proof (cases "cs = []")
    case True
    then show ?thesis by (simp add: step)
  next
    case False
    with Cons.prems(2) show ?thesis by (auto simp add: step)
  qed
  have "deliver t (c # cs) = deliver ?t' cs" by simp
  also have "\<dots> = ?t'\<lparr>resp_buffer :=
        memcpy_at (resp_buffer ?t') (resp_received ?t') (concat cs) (length (concat cs)),
      resp_received := resp_received ?t' + length (concat cs),
      response_ready := response_ready ?t'
         \<or> (cs \<noteq> [] \<and> resp_size ?t' \<le> resp_received ?t' + length (concat cs))\<rparr>"
    by (rule Cons.IH [OF 1 2 3])
  also have "\<dots> = t\<lparr>resp_buffer :=
        memcpy_at (resp_buffer t) (resp_received t) (concat (c # cs)) (length (concat (c # cs))),
      resp_received := resp_received t + length (concat (c # cs)),
      response_ready := response_ready t
         \<or> (c # cs \<noteq> [] \<and> resp_size t \<le> resp_received t + length (concat (c # cs)))\<rparr>"
    unfolding ready by (simp add: step memcpy_at_append add.assoc)
  finally show ?case .
qed


lemma le32_plain:
  "(((ucast a OR push_bit 8 (ucast b)) OR push_bit 16 (ucast c)) OR push_bit 24 (ucast d) :: u32)
   = le32 a b c d"
  by (simp add: le32_def)

lemma on_notify_first:
  assumes "resp_size t = 0" and "4 \<le> length c" and "take 4 c = le32_bytes n"
    and "unat n + 4 \<le> MAX_RESP_SIZE"
  shows "on_notify t c
         = t\<lparr>resp_size := unat n + 4,
              resp_buffer := memcpy_at (memset_zero (resp_buffer t) MAX_RESP_SIZE) 0 c (length c),
              resp_received := length c,
              response_ready := response_ready t \<or> unat n + 4 \<le> length c\<rparr>"
proof -
  have nth: "\<And>j. j < 4 \<Longrightarrow> c ! j = le32_bytes n ! j"
    using assms(3) nth_take [of _ 4 c] by metis
  have c0: "c ! 0 = ucast n" using nth [of 0] by (simp add: le32_bytes_def)
  have c1: "c ! 1 = ucast (drop_bit 8 n)" using nth [of 1] by (simp add: le32_bytes_def)
  have c2: "c ! 2 = ucast (drop_bit 16 n)" using nth [of 2] by (simp add: le32_bytes_def)
  have c3: "c ! 3 = ucast (drop_bit 24 n)" using nth [of 3] by (simp add: le32_bytes_def)
  have sv: "(((ucast (c ! 0) OR push_bit 8 (ucast (c ! 1))) OR push_bit 16 (ucast (c ! 2)))
              OR push_bit 24 (ucast (c ! 3)) :: u32) = n"
    by (simp only: c0 c1 c2 c3 le32_plain le32_roundtrip)
  have "unat n + 4 < 2 ^ 32" using assms(4) by (simp add: MAX_RESP_SIZE_def)
  then have u: "unat (n + 4) = unat n + 4"
    by (simp add: unat_word_ariths)
  have le: "\<not> MAX_RESP_SIZE < unat n + 4" using assms(4) by simp
  show ?thesis
    unfolding on_notify_def Let_def sv u
    using assms(1) assms(2) le by auto
qed

text \<open>
  C1, as the code has it. After the reset that starts an exchange, take a frame made of
  the 4-byte little-endian prefix \<open>n\<close> and \<open>n\<close> body bytes (the prefix counts the bytes
  behind it: the handler adds 4 for the prefix itself), short enough for the response
  array. Deliver it in chunks, in any partition whose first chunk holds the four prefix
  bytes at least. The state reached is always the same: the response is ready,
  \<open>n + 4\<close> bytes are counted as received, and the array holds the frame followed by
  zeros.
\<close>

theorem reassembly_chunking_invariant:
  assumes "resp_size t = 0"
    and "length body = unat n" and "unat n + 4 \<le> MAX_RESP_SIZE"
    and "concat chunks = le32_bytes n @ body"
    and "chunks \<noteq> []" and "4 \<le> length (hd chunks)"
  shows "deliver t chunks
         = t\<lparr>resp_size := unat n + 4,
              resp_buffer := memcpy_at (memset_zero (resp_buffer t) MAX_RESP_SIZE) 0
                               (le32_bytes n @ body) (unat n + 4),
              resp_received := unat n + 4,
              response_ready := True\<rparr>"
proof -
  from assms(5) obtain c cs where chunks: "chunks = c # cs" by (cases chunks) auto
  with assms(6) have c4: "4 \<le> length c" by simp
  from assms(4) chunks have cat: "c @ concat cs = le32_bytes n @ body" by simp
  then have "take 4 (c @ concat cs) = take 4 (le32_bytes n @ body)" by simp
  with c4 have pre: "take 4 c = le32_bytes n" by (simp add: length_le32_bytes)
  from cat have "length (c @ concat cs) = length (le32_bytes n @ body)" by simp
  then have total: "length c + length (concat cs) = unat n + 4"
    using assms(2) by (simp add: length_le32_bytes)
  let ?t1 = "on_notify t c"
  have t1: "?t1 = t\<lparr>resp_size := unat n + 4,
              resp_buffer := memcpy_at (memset_zero (resp_buffer t) MAX_RESP_SIZE) 0 c (length c),
              resp_received := length c,
              response_ready := response_ready t \<or> unat n + 4 \<le> length c\<rparr>"
    using assms(1) c4 pre assms(3) by (rule on_notify_first)
  have 1: "0 < resp_size ?t1" by (simp add: t1)
  have 2: "resp_received ?t1 + length (concat cs) \<le> resp_size ?t1"
    using total by (simp add: t1)
  have 3: "resp_size ?t1 \<le> MAX_RESP_SIZE" using assms(3) by (simp add: t1)
  have ready: "(response_ready ?t1
                 \<or> (cs \<noteq> [] \<and> resp_size ?t1 \<le> resp_received ?t1 + length (concat cs))) = True"
  proof (cases "cs = []")
    case True
    with total show ?thesis by (simp add: t1)
  next
    case False
    with total show ?thesis by (simp add: t1)
  qed
  have "deliver t chunks = deliver ?t1 cs" by (simp add: chunks)
  also have "\<dots> = ?t1\<lparr>resp_buffer :=
        memcpy_at (resp_buffer ?t1) (resp_received ?t1) (concat cs) (length (concat cs)),
      resp_received := resp_received ?t1 + length (concat cs),
      response_ready := response_ready ?t1
         \<or> (cs \<noteq> [] \<and> resp_size ?t1 \<le> resp_received ?t1 + length (concat cs))\<rparr>"
    by (rule deliver_append [OF 1 2 3])
  also have "\<dots> = t\<lparr>resp_size := unat n + 4,
              resp_buffer := memcpy_at (memset_zero (resp_buffer t) MAX_RESP_SIZE) 0
                               (c @ concat cs) (length c + length (concat cs)),
              resp_received := length c + length (concat cs),
              response_ready := True\<rparr>"
    unfolding ready
    using memcpy_at_append [of "memset_zero (resp_buffer t) MAX_RESP_SIZE" 0 c "concat cs"]
    by (simp add: t1)
  finally show ?thesis
    unfolding cat total .
qed

theorem reassembly_chunking_invariant_witness:
  "deliver (reset_response \<lparr>resp_buffer = \<lambda>_. 0xEE, resp_received = 7, resp_size = 9,
                              response_ready = True\<rparr>)
          [[4, 0, 0, 0, 0x0A], [0x0B, 0x0C], [], [0x0D]]
   = deliver (reset_response \<lparr>resp_buffer = \<lambda>_. 0xEE, resp_received = 7, resp_size = 9,
                              response_ready = True\<rparr>)
          [[4, 0, 0, 0, 0x0A, 0x0B, 0x0C, 0x0D]]
   \<and> response_ready (deliver (reset_response \<lparr>resp_buffer = \<lambda>_. 0xEE, resp_received = 7,
                              resp_size = 9, response_ready = True\<rparr>)
          [[4, 0, 0, 0, 0x0A], [0x0B, 0x0C], [], [0x0D]])
   \<and> resp_received (deliver (reset_response \<lparr>resp_buffer = \<lambda>_. 0xEE, resp_received = 7,
                              resp_size = 9, response_ready = True\<rparr>)
          [[4, 0, 0, 0, 0x0A], [0x0B, 0x0C], [], [0x0D]]) = 8"
proof -
  let ?t = "reset_response \<lparr>resp_buffer = \<lambda>_. 0xEE, resp_received = 7, resp_size = 9,
                              response_ready = True\<rparr>"
  have t: "resp_size ?t = 0" by (simp add: reset_response_def)
  have n: "length [0x0A, 0x0B, 0x0C, 0x0D :: u8] = unat (4 :: u32)"
    "unat (4 :: u32) + 4 \<le> MAX_RESP_SIZE"
    by (simp_all add: MAX_RESP_SIZE_def)
  have a: "deliver ?t [[4, 0, 0, 0, 0x0A], [0x0B, 0x0C], [], [0x0D]]
        = ?t\<lparr>resp_size := unat (4 :: u32) + 4,
              resp_buffer := memcpy_at (memset_zero (resp_buffer ?t) MAX_RESP_SIZE) 0
                               (le32_bytes 4 @ [0x0A, 0x0B, 0x0C, 0x0D]) (unat (4 :: u32) + 4),
              resp_received := unat (4 :: u32) + 4,
              response_ready := True\<rparr>"
    by (rule reassembly_chunking_invariant [OF t n]) (simp_all add: le32_bytes_def)
  have b: "deliver ?t [[4, 0, 0, 0, 0x0A, 0x0B, 0x0C, 0x0D]]
        = ?t\<lparr>resp_size := unat (4 :: u32) + 4,
              resp_buffer := memcpy_at (memset_zero (resp_buffer ?t) MAX_RESP_SIZE) 0
                               (le32_bytes 4 @ [0x0A, 0x0B, 0x0C, 0x0D]) (unat (4 :: u32) + 4),
              resp_received := unat (4 :: u32) + 4,
              response_ready := True\<rparr>"
    by (rule reassembly_chunking_invariant [OF t n]) (simp_all add: le32_bytes_def)
  show ?thesis
    unfolding a b by simp
qed

text \<open>
  The claim C1 as it stands fails. It takes the prefix to count itself, so that the
  prefix 8 is followed by 4 body bytes: delivered at once these 8 bytes leave the handler
  waiting for 12 and the response is not ready, while delivered one byte at a time the
  first chunk is too short to be taken for a prefix, the expected size stays 0 and the
  response is marked ready right after the first byte.
\<close>

theorem reassembly_counterexample:
  "\<not> response_ready (deliver \<lparr>resp_buffer = \<lambda>_. 0, resp_received = 0, resp_size = 0,
                               response_ready = False\<rparr>
                       [[8, 0, 0, 0, 1, 2, 3, 4]])
   \<and> resp_size (deliver \<lparr>resp_buffer = \<lambda>_. 0, resp_received = 0, resp_size = 0,
                          response_ready = False\<rparr>
                  [[8, 0, 0, 0, 1, 2, 3, 4]]) = 12
   \<and> response_ready (deliver \<lparr>resp_buffer = \<lambda>_. 0, resp_received = 0, resp_size = 0,
                               response_ready = False\<rparr>
                       [[8], [0], [0], [0], [1], [2], [3], [4]])
   \<and> response_ready (on_notify \<lparr>resp_buffer = \<lambda>_. 0, resp_received = 0, resp_size = 0,
                                 response_ready = False\<rparr> [8])"
  by (simp add: on_notify_def Let_def MAX_RESP_SIZE_def)

subsection \<open>The buffer invariant\<close>

lemma constructors_invariant:
  "buffer_invariant (BytesBuffer_void m)" "buffer_invariant (BytesBuffer_data m bs)"
  by (simp_all add: buffer_invariant_def BytesBuffer_void_def BytesBuffer_data_def Let_def)

lemma reads_keep_invariant:
  assumes "buffer_invariant b"
  shows "buffer_invariant (snd (snd (readUint8 b)))" "buffer_invariant (snd (snd (readUint16 b)))"
    "buffer_invariant (snd (snd (readUint32 b)))" "buffer_invariant (snd (snd (readInt8 b)))"
    "buffer_invariant (snd (snd (readInt16 b)))" "buffer_invariant (snd (snd (readInt32 b)))"
    "buffer_invariant (snd (snd (readFloat b)))" "buffer_invariant (snd (readBytes b k))"
  using assms
  by (auto simp add: buffer_invariant_def readUint8_def readUint16_def readUint32_def
      readInt8_def readInt16_def readInt32_def readFloat_def readBytes_def Let_def)

lemma writes_keep_invariant:
  assumes "buffer_invariant b"
  shows "buffer_invariant (snd (writeUint8 b v8))" "buffer_invariant (snd (writeUint16 b v16))"
    "buffer_invariant (snd (writeUint32 b v32))" "buffer_invariant (snd (writeInt8 b v8))"
    "buffer_invariant (snd (writeInt16 b v16))" "buffer_invariant (snd (writeInt32 b v32))"
    "buffer_invariant (snd (writeFloat b v32))" "buffer_invariant (snd (writeBytes b bs))"
  using assms
  by (auto simp add: buffer_invariant_def writeUint8_def writeUint16_def writeUint32_def
      writeInt8_def writeInt16_def writeInt32_def writeFloat_def writeBytes_def
      ensureCapacity_def raise_size_def)

text \<open>
  The test of the writes is a \<open>size_t\<close> sum too: at position 1 a request for
  \<open>SIZE_MAX\<close> more bytes wraps to 0 and is granted.
\<close>

lemma ensureCapacity_wraps:
  "ensureCapacity ((BytesBuffer_void m)\<lparr>position := 1\<rparr>) SIZE_MAX"
  by (simp add: ensureCapacity_def size_t_add_def SIZE_MAX_def BytesBuffer_void_def
      MAX_BUFFER_SIZE_def)

lemma cursor_moves_keep_invariant:
  assumes "buffer_invariant b"
  shows "buffer_invariant (setPosition b p)" "buffer_invariant (reset b)"
  using assms by (auto simp add: buffer_invariant_def setPosition_def reset_def)

lemma setSize_within_capacity:
  assumes "buffer_invariant b" and "n \<le> capacity b"
  shows "buffer_invariant (setSize b n)"
  using assms by (auto simp add: buffer_invariant_def setSize_def Let_def)

text \<open>
  C2. The invariant \<open>position \<le> size \<le> capacity\<close> holds after the constructors and is
  kept, as an inequality between the three fields, by every read, every write,
  \<open>setPosition\<close>, \<open>reset\<close> and by \<open>setSize\<close> with a size within the capacity (the
  lemmas above). It is not kept by \<open>setSize\<close> with a larger
  size: \<open>setSize\<close> calls \<open>ensureCapacity\<close> with the excess over the capacity, does not
  look at the answer, and stores the size. On a fresh buffer \<open>setSize(5000)\<close> gives size 5000 over capacity 4096, and
  after \<open>setPosition(4999)\<close> the read \<open>readUint8\<close> succeeds and returns the byte at offset
  4999, which lies outside the 4096-byte array.
\<close>

theorem setSize_breaks_invariant:
  "buffer_invariant (BytesBuffer_void m)
   \<and> \<not> buffer_invariant (setSize (BytesBuffer_void m) 5000)
   \<and> size_b (setSize (BytesBuffer_void m) 5000) = 5000
   \<and> capacity (setSize (BytesBuffer_void m) 5000) = 4096
   \<and> fst (readUint8 (setPosition (setSize (BytesBuffer_void m) 5000) 4999))
   \<and> fst (snd (readUint8 (setPosition (setSize (BytesBuffer_void m) 5000) 4999))) = m 4999"
  by (simp add: buffer_invariant_def BytesBuffer_void_def setSize_def setPosition_def
      readUint8_def ensureCapacity_def MAX_BUFFER_SIZE_def memset_zero_def Let_def)

end
